theory Spec2Isabelle
  imports Complex_Main "HOL-Library.Word" "HOL-Library.AList"
begin

section \<open>JavaScript values\<close>

text \<open>
  The backend is JavaScript, so the arguments of its service functions are untyped values.
  A number is a double: it is modelled as \<open>NaN\<close> or an exact rational. Strings are lists of
  8-bit code units, \<open>length\<close> being the source's \<open>.length\<close>. An object is an association
  list from property names to values, an array a list.
\<close>

datatype jsnum = NaN | Num rat

datatype jsval =
    JUndefined
  | JNull
  | JBool bool
  | JNum jsnum
  | JStr string
  | JArr "jsval list"
  | JObj "(string \<times> jsval) list"

text \<open>What the source can throw; every \<open>throw\<close> is the \<open>Inl\<close> branch of a sum.\<close>

datatype jserror =
    TypeError
  | RangeError
  | Error string
  | PostgrestError string

text \<open>\<open>!v\<close> is \<open>\<not> truthy v\<close>: undefined, null, false, 0, NaN and the empty string are falsy.\<close>

fun truthy :: "jsval \<Rightarrow> bool" where
  "truthy JUndefined = False"
| "truthy JNull = False"
| "truthy (JBool b) = b"
| "truthy (JNum NaN) = False"
| "truthy (JNum (Num r)) = (r \<noteq> 0)"
| "truthy (JStr s) = (s \<noteq> [])"
| "truthy (JArr xs) = True"
| "truthy (JObj kvs) = True"

fun isArray :: "jsval \<Rightarrow> bool" where
  "isArray (JArr xs) = True"
| "isArray v = False"

fun isString :: "jsval \<Rightarrow> bool" where
  "isString (JStr s) = True"
| "isString v = False"

fun elems :: "jsval \<Rightarrow> jsval list" where
  "elems (JArr xs) = xs"
| "elems v = []"

fun chars :: "jsval \<Rightarrow> string" where
  "chars (JStr s) = s"
| "chars v = []"

text \<open>
  Property read \<open>v.k\<close> for the names the source reads (\<open>role\<close>, \<open>content\<close>, \<open>header\<close>,
  \<open>body\<close>, \<open>footer\<close>): on undefined and null it throws a TypeError, on an object it is the
  stored value or undefined, and no primitive or array has a property of these names.
\<close>

fun get_prop :: "jsval \<Rightarrow> string \<Rightarrow> jserror + jsval" where
  "get_prop JUndefined k = Inl TypeError"
| "get_prop JNull k = Inl TypeError"
| "get_prop (JObj kvs) k = Inr (case map_of kvs k of None \<Rightarrow> JUndefined | Some v \<Rightarrow> v)"
| "get_prop v k = Inr JUndefined"

text \<open>
  \<open>Array.prototype.slice(start)\<close> with one argument: a negative start counts from the end
  and is clamped at the first element, a start beyond the length gives the empty array.
\<close>

definition array_slice :: "'a list \<Rightarrow> int \<Rightarrow> 'a list" where
  "array_slice xs start =
     (let len = int (length xs);
          k = (if start < 0 then max (len + start) 0 else min start len)
      in drop (nat k) xs)"

section \<open>History Curator (conversationService.js)\<close>

record gemini_content =
  role :: string
  parts :: "jsval list"

text \<open>\<open>formatHistoryForGemini\<close>: the callback of \<open>map\<close> reads \<open>message.role\<close> and
  \<open>message.content\<close>, which throws on a null or undefined entry.\<close>

fun format_message :: "jsval \<Rightarrow> jserror + gemini_content" where
  "format_message message =
     (case get_prop message ''role'' of
        Inl e \<Rightarrow> Inl e
      | Inr r \<Rightarrow>
          (case get_prop message ''content'' of
             Inl e \<Rightarrow> Inl e
           | Inr c \<Rightarrow>
               Inr \<lparr>role = (if r = JStr ''user'' then ''user'' else ''model''), parts = [c]\<rparr>))"

fun map_err :: "('a \<Rightarrow> jserror + 'b) \<Rightarrow> 'a list \<Rightarrow> jserror + 'b list" where
  "map_err f [] = Inr []"
| "map_err f (x # xs) =
     (case f x of
        Inl e \<Rightarrow> Inl e
      | Inr y \<Rightarrow> (case map_err f xs of Inl e \<Rightarrow> Inl e | Inr ys \<Rightarrow> Inr (y # ys)))"

definition formatHistoryForGemini :: "jsval \<Rightarrow> jserror + gemini_content list" where
  "formatHistoryForGemini messages =
     (if \<not> truthy messages \<or> \<not> isArray messages then Inr []
      else map_err format_message (elems messages))"

text \<open>\<open>trimHistory(messages, maxMessages = 10)\<close>: the second argument is \<open>None\<close> when the
  caller leaves it out, and the default applies.\<close>

definition trimHistory :: "jsval \<Rightarrow> int option \<Rightarrow> jsval list" where
  "trimHistory messages maxMessages_arg =
     (let maxMessages = (case maxMessages_arg of None \<Rightarrow> 10 | Some n \<Rightarrow> n)
      in if \<not> truthy messages \<or> \<not> isArray messages then []
         else let trimmed = array_slice (elems messages) (- maxMessages)
              in if length trimmed mod 2 \<noteq> 0 \<and> length trimmed > 1 then array_slice trimmed 1
                 else trimmed)"

text \<open>
  The result as C4 describes it, written from the words of the claim for comparison with
  the source: the most recent \<open>n\<close> entries of a list are its last \<open>n\<close> entries (all of them
  when the list is shorter, none when \<open>n\<close> is not positive), and the oldest of them is
  dropped when their number is odd and above one.
\<close>

definition most_recent :: "int \<Rightarrow> 'a list \<Rightarrow> 'a list" where
  "most_recent n xs = drop (length xs - nat n) xs"

definition described_trim :: "jsval list \<Rightarrow> int \<Rightarrow> jsval list" where
  "described_trim ms n =
     (let kept = most_recent n ms
      in if odd (length kept) \<and> 1 < length kept then tl kept else kept)"

text \<open>\<open>estimateTokens\<close>: \<open>Math.ceil(text.length / 4)\<close> on a non-empty string, 0 otherwise.\<close>

definition estimateTokens :: "jsval \<Rightarrow> nat" where
  "estimateTokens text =
     (if \<not> truthy text \<or> \<not> isString text then 0 else (length (chars text) + 3) div 4)"

text \<open>
  \<open>validateHistory\<close> returns \<open>{isValid, error}\<close>. The error texts of the source are kept as
  constructors carrying what the text interpolates: the index of the message and, for an
  invalid role, the role.
\<close>

datatype verror =
    NotAnArray
  | HistoryTooLong
  | MissingRoleOrContent nat
  | InvalidRole nat jsval
  | ContentNotString nat
  | MessageTooLong nat

record validation =
  isValid :: bool
  error :: "verror option"

definition invalid :: "verror \<Rightarrow> validation" where
  "invalid e = \<lparr>isValid = False, error = Some e\<rparr>"

definition valid :: validation where
  "valid = \<lparr>isValid = True, error = None\<rparr>"

text \<open>The \<open>for\<close> loop, from index \<open>i\<close> on.\<close>

fun validate_from :: "nat \<Rightarrow> jsval list \<Rightarrow> jserror + validation" where
  "validate_from i [] = Inr valid"
| "validate_from i (message # rest) =
     (case get_prop message ''role'' of
        Inl e \<Rightarrow> Inl e
      | Inr r \<Rightarrow>
          (case get_prop message ''content'' of
             Inl e \<Rightarrow> Inl e
           | Inr c \<Rightarrow>
               if \<not> truthy r \<or> \<not> truthy c then Inr (invalid (MissingRoleOrContent i))
               else if r \<notin> set [JStr ''user'', JStr ''assistant'']
                 then Inr (invalid (InvalidRole i r))
               else if \<not> isString c then Inr (invalid (ContentNotString i))
               else if length (chars c) > 10000 then Inr (invalid (MessageTooLong i))
               else validate_from (Suc i) rest))"

definition validateHistory :: "jsval \<Rightarrow> jserror + validation" where
  "validateHistory messages =
     (if \<not> truthy messages \<or> \<not> isArray messages then Inr (invalid NotAnArray)
      else if length (elems messages) > 50 then Inr (invalid HistoryTooLong)
      else validate_from 0 (elems messages))"

text \<open>A stored message as the history holds it.\<close>

definition message_row :: "string \<Rightarrow> string \<Rightarrow> jsval" where
  "message_row r c = JObj [(''role'', JStr r), (''content'', JStr c)]"

text \<open>
  What the claims call a valid entry: a role that is \<open>user\<close> or \<open>assistant\<close> and a content
  that is a non-empty string of at most 10,000 characters. The source tests "lacking" by
  falsiness, so the empty string counts as lacking.
\<close>

definition valid_entry :: "jsval \<Rightarrow> bool" where
  "valid_entry m =
     (case get_prop m ''role'' of
        Inl e \<Rightarrow> False
      | Inr r \<Rightarrow>
          (case get_prop m ''content'' of
             Inl e \<Rightarrow> False
           | Inr c \<Rightarrow>
               (r = JStr ''user'' \<or> r = JStr ''assistant'') \<and> isString c
               \<and> chars c \<noteq> [] \<and> length (chars c) \<le> 10000))"


section \<open>Page Artifact Cache: normalisation of stored text (pageCacheService.js)\<close>

subsection \<open>The runtime's \<open>JSON.parse\<close>\<close>

text \<open>
  \<open>normalizeExtractedText\<close> calls the runtime's \<open>JSON.parse\<close>. The function below takes
  the parser as a parameter, so what is proved of it in general holds for any parser;
  \<open>JSON_parse\<close> is an executable parser of the JSON grammar (ECMA-404), used where a
  concrete text is evaluated. \<open>None\<close> is the SyntaxError that \<open>JSON.parse\<close> throws.
  Numbers are read exactly (no rounding to a double), a unicode escape gives the code
  unit reduced to the 8 bits of this model's characters, and a repeated key keeps its
  last value. The fuel of the mutual recursion is twice the length of the text plus one,
  which no text exhausts: every recursive call but one in two consumes a character.
\<close>

definition is_json_ws :: "char \<Rightarrow> bool" where
  "is_json_ws c = (c = CHR '' '' \<or> c = CHR 0x09 \<or> c = CHR 0x0A \<or> c = CHR 0x0D)"

definition skip_ws :: "string \<Rightarrow> string" where
  "skip_ws s = dropWhile is_json_ws s"

definition char_code :: "char \<Rightarrow> nat" where
  "char_code c = of_char c"

definition is_digit :: "char \<Rightarrow> bool" where
  "is_digit c = (48 \<le> char_code c \<and> char_code c \<le> 57)"

definition digit_val :: "char \<Rightarrow> nat" where
  "digit_val c = char_code c - 48"

definition digits_val :: "string \<Rightarrow> nat" where
  "digits_val ds = foldl (\<lambda>acc d. 10 * acc + digit_val d) 0 ds"

definition hex_val :: "char \<Rightarrow> nat option" where
  "hex_val c =
     (if is_digit c then Some (char_code c - 48)
      else if 97 \<le> char_code c \<and> char_code c \<le> 102 then Some (char_code c - 87)
      else if 65 \<le> char_code c \<and> char_code c \<le> 70 then Some (char_code c - 55)
      else None)"

definition simple_escape :: "char \<Rightarrow> char option" where
  "simple_escape c =
     (if c = CHR 0x22 then Some (CHR 0x22)
      else if c = CHR 0x5C then Some (CHR 0x5C)
      else if c = CHR ''/'' then Some (CHR ''/'')
      else if c = CHR ''b'' then Some (CHR 0x08)
      else if c = CHR ''f'' then Some (CHR 0x0C)
      else if c = CHR ''n'' then Some (CHR 0x0A)
      else if c = CHR ''r'' then Some (CHR 0x0D)
      else if c = CHR ''t'' then Some (CHR 0x09)
      else None)"

datatype scan_state = Plain | Escape | Unicode nat nat

definition cons_char :: "char \<Rightarrow> (string \<times> string) option \<Rightarrow> (string \<times> string) option" where
  "cons_char c r = (case r of None \<Rightarrow> None | Some (s, rest) \<Rightarrow> Some (c # s, rest))"

fun json_string :: "scan_state \<Rightarrow> string \<Rightarrow> (string \<times> string) option" where
  "json_string st [] = None"
| "json_string Plain (c # cs) =
     (if c = CHR 0x22 then Some ([], cs)
      else if c = CHR 0x5C then json_string Escape cs
      else if char_code c < 32 then None
      else cons_char c (json_string Plain cs))"
| "json_string Escape (c # cs) =
     (if c = CHR ''u'' then json_string (Unicode 4 0) cs
      else (case simple_escape c of
              None \<Rightarrow> None
            | Some d \<Rightarrow> cons_char d (json_string Plain cs)))"
| "json_string (Unicode k acc) (c # cs) =
     (case hex_val c of
        None \<Rightarrow> None
      | Some h \<Rightarrow>
          if k \<le> 1 then cons_char (char_of (16 * acc + h)) (json_string Plain cs)
          else json_string (Unicode (k - 1) (16 * acc + h)) cs)"

definition json_number :: "string \<Rightarrow> (rat \<times> string) option" where
  "json_number s =
     (let neg = (s \<noteq> [] \<and> hd s = CHR ''-'');
          s1 = (if neg then tl s else s);
          ip = takeWhile is_digit s1;
          s2 = dropWhile is_digit s1
      in if ip = [] \<or> (hd ip = CHR ''0'' \<and> length ip > 1) then None
         else
           let has_frac = (s2 \<noteq> [] \<and> hd s2 = CHR ''.'');
               fp = (if has_frac then takeWhile is_digit (tl s2) else []);
               s3 = (if has_frac then dropWhile is_digit (tl s2) else s2)
           in if has_frac \<and> fp = [] then None
              else
                let has_exp = (s3 \<noteq> [] \<and> (hd s3 = CHR ''e'' \<or> hd s3 = CHR ''E''));
                    s4 = (if has_exp then tl s3 else s3);
                    eneg = (has_exp \<and> s4 \<noteq> [] \<and> hd s4 = CHR ''-'');
                    s5 = (if has_exp \<and> s4 \<noteq> [] \<and> (hd s4 = CHR ''-'' \<or> hd s4 = CHR ''+'')
                          then tl s4 else s4);
                    ep = (if has_exp then takeWhile is_digit s5 else []);
                    s6 = (if has_exp then dropWhile is_digit s5 else s3)
                in if has_exp \<and> ep = [] then None
                   else
                     let mant = of_nat (digits_val ip) + of_nat (digits_val fp) / 10 ^ length fp;
                         scaled = (if eneg then mant / 10 ^ digits_val ep
                                   else mant * 10 ^ digits_val ep)
                     in Some (if neg then - scaled else scaled, s6))"

definition strip_prefix :: "string \<Rightarrow> string \<Rightarrow> string option" where
  "strip_prefix p s = (if take (length p) s = p then Some (drop (length p) s) else None)"

fun json_value :: "nat \<Rightarrow> string \<Rightarrow> (jsval \<times> string) option"
  and json_elements :: "nat \<Rightarrow> string \<Rightarrow> (jsval list \<times> string) option"
  and json_members :: "nat \<Rightarrow> (string \<times> jsval) list \<Rightarrow> string \<Rightarrow> ((string \<times> jsval) list \<times> string) option"
where
  "json_value 0 s = None"
| "json_value (Suc n) s =
     (case skip_ws s of
        [] \<Rightarrow> None
      | c # cs \<Rightarrow>
          if c = CHR ''{'' then
            (case skip_ws cs of
               [] \<Rightarrow> None
             | d # ds \<Rightarrow>
                 if d = CHR ''}'' then Some (JObj [], ds)
                 else (case json_members n [] (d # ds) of
                         None \<Rightarrow> None
                       | Some (kvs, rest) \<Rightarrow> Some (JObj kvs, rest)))
          else if c = CHR ''['' then
            (case skip_ws cs of
               [] \<Rightarrow> None
             | d # ds \<Rightarrow>
                 if d = CHR '']'' then Some (JArr [], ds)
                 else (case json_elements n (d # ds) of
                         None \<Rightarrow> None
                       | Some (vs, rest) \<Rightarrow> Some (JArr vs, rest)))
          else if c = CHR 0x22 then
            (case json_string Plain cs of
               None \<Rightarrow> None
             | Some (str, rest) \<Rightarrow> Some (JStr str, rest))
          else if c = CHR ''n'' then
            (case strip_prefix ''null'' (c # cs) of
               None \<Rightarrow> None | Some rest \<Rightarrow> Some (JNull, rest))
          else if c = CHR ''t'' then
            (case strip_prefix ''true'' (c # cs) of
               None \<Rightarrow> None | Some rest \<Rightarrow> Some (JBool True, rest))
          else if c = CHR ''f'' then
            (case strip_prefix ''false'' (c # cs) of
               None \<Rightarrow> None | Some rest \<Rightarrow> Some (JBool False, rest))
          else
            (case json_number (c # cs) of
               None \<Rightarrow> None
             | Some (r, rest) \<Rightarrow> Some (JNum (Num r), rest)))"
| "json_elements 0 s = None"
| "json_elements (Suc n) s =
     (case json_value n s of
        None \<Rightarrow> None
      | Some (v, rest) \<Rightarrow>
          (case skip_ws rest of
             [] \<Rightarrow> None
           | c # cs \<Rightarrow>
               if c = CHR '','' then
                 (case json_elements n cs of
                    None \<Rightarrow> None
                  | Some (vs, rest') \<Rightarrow> Some (v # vs, rest'))
               else if c = CHR '']'' then Some ([v], cs)
               else None))"
| "json_members 0 acc s = None"
| "json_members (Suc n) acc s =
     (case skip_ws s of
        [] \<Rightarrow> None
      | q # qs \<Rightarrow>
          if q \<noteq> CHR 0x22 then None
          else
            (case json_string Plain qs of
               None \<Rightarrow> None
             | Some (k, rest) \<Rightarrow>
                 (case skip_ws rest of
                    [] \<Rightarrow> None
                  | c # cs \<Rightarrow>
                      if c \<noteq> CHR '':'' then None
                      else
                        (case json_value n cs of
                           None \<Rightarrow> None
                         | Some (v, rest') \<Rightarrow>
                             (case skip_ws rest' of
                                [] \<Rightarrow> None
                              | e # es \<Rightarrow>
                                  if e = CHR '','' then json_members n (AList.update k v acc) es
                                  else if e = CHR ''}'' then Some (AList.update k v acc, es)
                                  else None)))))"

definition JSON_parse :: "string \<Rightarrow> jsval option" where
  "JSON_parse s =
     (case json_value (2 * length s + 1) s of
        None \<Rightarrow> None
      | Some (v, rest) \<Rightarrow> if skip_ws rest = [] then Some v else None)"

subsection \<open>\<open>normalizeExtractedText\<close>\<close>

record normalized_text =
  header :: string
  body :: string
  footer :: string

text \<open>\<open>typeof parsed.k === 'string' ? parsed.k : ''\<close>; the property read throws when
  \<open>parsed\<close> is null.\<close>

definition safe_field :: "jsval \<Rightarrow> string \<Rightarrow> jserror + string" where
  "safe_field parsed k =
     (case get_prop parsed k of
        Inl e \<Rightarrow> Inl e
      | Inr v \<Rightarrow> Inr (if isString v then chars v else []))"

definition normalizeExtractedText ::
  "(string \<Rightarrow> jsval option) \<Rightarrow> jsval \<Rightarrow> jserror + normalized_text" where
  "normalizeExtractedText json_parse rawText =
     (if \<not> truthy rawText then Inr \<lparr>header = [], body = [], footer = []\<rparr>
      else
        (case (if isString rawText then json_parse (chars rawText) else Some rawText) of
           None \<Rightarrow> Inr \<lparr>header = [], body = chars rawText, footer = []\<rparr>
         | Some parsed \<Rightarrow>
             (case safe_field parsed ''header'' of
                Inl e \<Rightarrow> Inl e
              | Inr safeHeader \<Rightarrow>
                  (case safe_field parsed ''body'' of
                     Inl e \<Rightarrow> Inl e
                   | Inr safeBody \<Rightarrow>
                       (case safe_field parsed ''footer'' of
                          Inl e \<Rightarrow> Inl e
                        | Inr safeFooter \<Rightarrow>
                            Inr \<lparr>header = safeHeader, body = safeBody,
                                 footer = safeFooter\<rparr>)))))"

section \<open>Audio Codec (index.js)\<close>

type_synonym byte = "8 word"

subsection \<open>Strings and numbers of the runtime\<close>

text \<open>\<open>String.prototype.trim\<close> and \<open>parseInt\<close> skip the white space of the language; among
  8-bit code units that is tab, line feed, vertical tab, form feed, carriage return,
  space and the no-break space.\<close>

definition is_js_ws :: "char \<Rightarrow> bool" where
  "is_js_ws c = (char_code c \<in> set [9, 10, 11, 12, 13, 32, 160])"

definition trim :: "string \<Rightarrow> string" where
  "trim s = rev (dropWhile is_js_ws (rev (dropWhile is_js_ws s)))"

text \<open>\<open>s.split(sep)\<close> for a separator of one character: never empty, \<open>''.split(sep)\<close>
  being \<open>['']\<close>.\<close>

fun split_on :: "char \<Rightarrow> string \<Rightarrow> string list" where
  "split_on sep [] = [[]]"
| "split_on sep (c # cs) =
     (if c = sep then [] # split_on sep cs
      else (case split_on sep cs of
              [] \<Rightarrow> [[c]]
            | w # ws \<Rightarrow> (c # w) # ws))"

text \<open>Array destructuring \<open>[a, b] = xs\<close>: an element that is not there is undefined.\<close>

definition element :: "'a list \<Rightarrow> nat \<Rightarrow> 'a option" where
  "element xs i = (if i < length xs then Some (xs ! i) else None)"

text \<open>
  \<open>parseInt(v, 10)\<close>: the argument is converted to a string (\<open>undefined\<close> to the text
  \<open>undefined\<close>), leading white space and one sign are dropped, and the longest prefix of
  decimal digits is the value; without a digit the result is NaN. The value is exact here,
  as it is in a double below \<open>2^53\<close>, which is beyond the range of every header field.
\<close>

definition parseInt :: "string option \<Rightarrow> jsnum" where
  "parseInt v =
     (let inputString = (case v of None \<Rightarrow> ''undefined'' | Some s \<Rightarrow> s);
          S = dropWhile is_js_ws inputString;
          negative = (S \<noteq> [] \<and> hd S = CHR ''-'');
          S' = (if S \<noteq> [] \<and> (hd S = CHR ''+'' \<or> hd S = CHR ''-'') then tl S else S);
          Z = takeWhile is_digit S'
      in if Z = [] then NaN
         else Num (if negative then - of_nat (digits_val Z) else of_nat (digits_val Z)))"

text \<open>Products and quotients of doubles: NaN is absorbing. The only divisor of the source
  is the constant 8.\<close>

fun jmul :: "jsnum \<Rightarrow> jsnum \<Rightarrow> jsnum" where
  "jmul (Num a) (Num b) = Num (a * b)"
| "jmul x y = NaN"

fun jdiv :: "jsnum \<Rightarrow> jsnum \<Rightarrow> jsnum" where
  "jdiv (Num a) (Num b) = (if b = 0 then NaN else Num (a / b))"
| "jdiv x y = NaN"

subsection \<open>\<open>parseMimeType\<close>\<close>

record wav_options =
  numChannels :: jsnum
  sampleRate :: jsnum
  bitsPerSample :: jsnum

text \<open>The body of the loop over the parameters.\<close>

definition apply_param :: "string \<Rightarrow> wav_options \<Rightarrow> wav_options" where
  "apply_param param options =
     (let kv = map trim (split_on (CHR ''='') param);
          key = element kv 0;
          val = element kv 1
      in if key = Some ''rate'' then options\<lparr>sampleRate := parseInt val\<rparr> else options)"

definition parseMimeType :: "string \<Rightarrow> wav_options" where
  "parseMimeType mimeType =
     (let pieces = map trim (split_on (CHR '';'') mimeType);
          fileType = (case element pieces 0 of None \<Rightarrow> [] | Some t \<Rightarrow> t);
          params = tl pieces;
          format = element (split_on (CHR ''/'') fileType) 1;
          options = \<lparr>numChannels = Num 1, sampleRate = Num 22050, bitsPerSample = Num 16\<rparr>;
          options1 =
            (case format of
               None \<Rightarrow> options
             | Some f \<Rightarrow>
                 if f \<noteq> [] \<and> hd f = CHR ''L'' then
                   (let bits = parseInt (Some (tl f))
                    in if bits \<noteq> NaN then options\<lparr>bitsPerSample := bits\<rparr> else options)
                 else options)
      in fold apply_param params options1)"

subsection \<open>Buffers\<close>

text \<open>Writing bytes into a buffer from an offset on; the buffer keeps its length.\<close>

fun store :: "nat \<Rightarrow> byte list \<Rightarrow> byte list \<Rightarrow> byte list" where
  "store off [] buf = buf"
| "store off (b # bs) buf = store (Suc off) bs (buf[off := b])"

fun le_bytes :: "nat \<Rightarrow> nat \<Rightarrow> byte list" where
  "le_bytes 0 n = []"
| "le_bytes (Suc k) n = of_nat n # le_bytes k (n div 256)"

text \<open>
  \<open>buf.writeUInt16LE(value, offset)\<close> and \<open>buf.writeUInt32LE(value, offset)\<close> of the
  runtime, \<open>k\<close> the number of bytes: a value above the maximum or below 0 throws a
  RangeError, as does an offset beyond the buffer; NaN passes the comparison and is
  written as 0; a fraction is cut off.
\<close>

definition writeUIntLE :: "nat \<Rightarrow> jsnum \<Rightarrow> nat \<Rightarrow> byte list \<Rightarrow> jserror + byte list" where
  "writeUIntLE k v offset buf =
     (case v of
        NaN \<Rightarrow>
          if length buf < offset + k then Inl RangeError
          else Inr (store offset (le_bytes k 0) buf)
      | Num r \<Rightarrow>
          if r > of_nat (2 ^ (8 * k) - 1) \<or> r < 0 then Inl RangeError
          else if length buf < offset + k then Inl RangeError
          else Inr (store offset (le_bytes k (nat \<lfloor>r\<rfloor>)) buf))"

definition writeUInt16LE :: "jsnum \<Rightarrow> nat \<Rightarrow> byte list \<Rightarrow> jserror + byte list" where
  "writeUInt16LE = writeUIntLE 2"

definition writeUInt32LE :: "jsnum \<Rightarrow> nat \<Rightarrow> byte list \<Rightarrow> jserror + byte list" where
  "writeUInt32LE = writeUIntLE 4"

text \<open>\<open>buf.write(text, offset)\<close> for an ASCII text that fits.\<close>

definition write_text :: "string \<Rightarrow> nat \<Rightarrow> byte list \<Rightarrow> jserror + byte list" where
  "write_text s offset buf = Inr (store offset (map (\<lambda>c. of_nat (char_code c)) s) buf)"

text \<open>A sequence of writes, stopping at the first that throws.\<close>

fun writes :: "(byte list \<Rightarrow> jserror + byte list) list \<Rightarrow> byte list \<Rightarrow> jserror + byte list" where
  "writes [] buf = Inr buf"
| "writes (w # ws) buf = (case w buf of Inl e \<Rightarrow> Inl e | Inr buf' \<Rightarrow> writes ws buf')"

subsection \<open>\<open>createWavHeader\<close> and \<open>convertToWav\<close>\<close>

definition createWavHeader :: "nat \<Rightarrow> wav_options \<Rightarrow> jserror + byte list" where
  "createWavHeader dataLength options =
     (let byteRate = jdiv (jmul (jmul (sampleRate options) (numChannels options))
                            (bitsPerSample options)) (Num 8);
          blockAlign = jdiv (jmul (numChannels options) (bitsPerSample options)) (Num 8);
          buffer = replicate 44 0
      in writes
           [write_text ''RIFF'' 0,
            writeUInt32LE (Num (of_nat (36 + dataLength))) 4,
            write_text ''WAVE'' 8,
            write_text ''fmt '' 12,
            writeUInt32LE (Num 16) 16,
            writeUInt16LE (Num 1) 20,
            writeUInt16LE (numChannels options) 22,
            writeUInt32LE (sampleRate options) 24,
            writeUInt32LE byteRate 28,
            writeUInt16LE blockAlign 32,
            writeUInt16LE (bitsPerSample options) 34,
            write_text ''data'' 36,
            writeUInt32LE (Num (of_nat dataLength)) 40]
           buffer)"

text \<open>
  \<open>convertToWav\<close>. \<open>Buffer.from(rawData, 'base64')\<close> is the runtime's decoder, a parameter
  here; \<open>base64_decode\<close> below is the decoder used where a concrete text is evaluated.
\<close>

definition convertToWav ::
  "(string \<Rightarrow> byte list) \<Rightarrow> string \<Rightarrow> string \<Rightarrow> jserror + byte list" where
  "convertToWav base64 rawData mimeType =
     (let options = parseMimeType mimeType;
          buffer = base64 rawData
      in case createWavHeader (length buffer) options of
           Inl e \<Rightarrow> Inl e
         | Inr wavHeader \<Rightarrow> Inr (wavHeader @ buffer))"

text \<open>
  Base64 as the runtime decodes it: the text ends at the first \<open>=\<close>, characters outside
  the alphabet (standard or URL-safe) are skipped, four sextets give three bytes and a
  rest of three or two sextets gives two bytes or one.
\<close>

definition b64_value :: "char \<Rightarrow> nat option" where
  "b64_value c =
     (let n = char_code c
      in if 65 \<le> n \<and> n \<le> 90 then Some (n - 65)
         else if 97 \<le> n \<and> n \<le> 122 then Some (n - 71)
         else if 48 \<le> n \<and> n \<le> 57 then Some (n + 4)
         else if n = 43 \<or> n = 45 then Some 62
         else if n = 47 \<or> n = 95 then Some 63
         else None)"

fun b64_groups :: "nat list \<Rightarrow> byte list" where
  "b64_groups (a # b # c # d # rest) =
     of_nat (a * 4 + b div 16) # of_nat (b * 16 + c div 4) # of_nat (c * 64 + d)
       # b64_groups rest"
| "b64_groups [a, b, c] = [of_nat (a * 4 + b div 16), of_nat (b * 16 + c div 4)]"
| "b64_groups [a, b] = [of_nat (a * 4 + b div 16)]"
| "b64_groups xs = []"

definition base64_decode :: "string \<Rightarrow> byte list" where
  "base64_decode s = b64_groups (List.map_filter b64_value (takeWhile (\<lambda>c. c \<noteq> CHR ''='') s))"

text \<open>Reading a little-endian field of \<open>k\<close> bytes at an offset, as a player of the file
  does.\<close>

definition le_value :: "byte list \<Rightarrow> nat" where
  "le_value bs = foldr (\<lambda>b acc. unat b + 256 * acc) bs 0"

definition field :: "byte list \<Rightarrow> nat \<Rightarrow> nat \<Rightarrow> nat" where
  "field buf offset k = le_value (take k (drop offset buf))"

text \<open>The header that the thirteen writes of \<open>createWavHeader\<close> leave when none throws.\<close>

definition wav_header :: "nat \<Rightarrow> nat \<Rightarrow> nat \<Rightarrow> nat \<Rightarrow> nat \<Rightarrow> nat \<Rightarrow> byte list" where
  "wav_header n c s br ba b =
     store 40 (le_bytes 4 n)
      (store 36 (map (\<lambda>c. of_nat (char_code c)) ''data'')
       (store 34 (le_bytes 2 b)
        (store 32 (le_bytes 2 ba)
         (store 28 (le_bytes 4 br)
          (store 24 (le_bytes 4 s)
           (store 22 (le_bytes 2 c)
            (store 20 (le_bytes 2 1)
             (store 16 (le_bytes 4 16)
              (store 12 (map (\<lambda>c. of_nat (char_code c)) ''fmt '')
               (store 8 (map (\<lambda>c. of_nat (char_code c)) ''WAVE'')
                (store 4 (le_bytes 4 (36 + n))
                 (store 0 (map (\<lambda>c. of_nat (char_code c)) ''RIFF'')
                  (replicate 44 0)))))))))))))"

section \<open>Artifact Store (supabaseService.js)\<close>

text \<open>
  The tables are lists of rows. A query of the client returns \<open>{data, error}\<close>;
  \<open>.single()\<close> gives the row when exactly one matches and the error PGRST116 with no data
  otherwise (the source's comments: "PGRST116 = not found", "no rows returned"). Failures
  of the transport are not modelled. Wall-clock measurements (\<open>processingTime\<close>,
  \<open>processing_duration_ms\<close>) are left out of rows and results.
\<close>

definition single :: "'a list \<Rightarrow> 'a option \<times> jserror option" where
  "single rows =
     (case rows of
        [r] \<Rightarrow> (Some r, None)
      | _ \<Rightarrow> (None, Some (PostgrestError ''PGRST116'')))"

text \<open>\<open>if (error && error.code !== 'PGRST116') throw error; return data\<close>\<close>

definition data_or_null :: "'a option \<times> jserror option \<Rightarrow> jserror + 'a option" where
  "data_or_null r =
     (case r of
        (d, None) \<Rightarrow> Inr d
      | (d, Some e) \<Rightarrow> if e \<noteq> PostgrestError ''PGRST116'' then Inl e else Inr d)"

text \<open>\<open>if (error) throw error; return data\<close>\<close>

definition data_or_throw :: "'a option \<times> jserror option \<Rightarrow> jserror + 'a option" where
  "data_or_throw r =
     (case r of
        (d, None) \<Rightarrow> Inr d
      | (d, Some e) \<Rightarrow> Inl e)"

record page_row =
  page_id :: nat
  book_id :: string
  page_number :: int
  image_url :: string

record text_row =
  text_page_id :: nat
  extracted_text :: jsval
  extraction_confidence :: rat

record audio_row =
  audio_page_id :: nat
  voice_persona :: string
  audio_url :: "string option"
  audio_duration_seconds :: int
  audio_format :: string
  audio_size_bytes :: nat
  voice_settings :: string

text \<open>
  The state the services act on: the three tables, the blob storage, and what has been
  sent to the Generation Backend so far, the number of requests and the delays (in ms)
  waited between them.
\<close>

record world =
  pages :: "page_row list"
  page_text :: "text_row list"
  page_audio :: "audio_row list"
  files :: "(string \<times> byte list) list"
  requests :: nat
  sleeps :: "int list"

definition getPageByBookAndNumber :: "world \<Rightarrow> string \<Rightarrow> int \<Rightarrow> jserror + page_row option" where
  "getPageByBookAndNumber w bookId pageNumber =
     data_or_null (single (filter (\<lambda>p. book_id p = bookId \<and> page_number p = pageNumber) (pages w)))"

text \<open>The database gives a new page an identifier that no page has.\<close>

definition fresh_page_id :: "page_row list \<Rightarrow> nat" where
  "fresh_page_id ps = Suc (fold max (map page_id ps) 0)"

definition createPage ::
  "world \<Rightarrow> string \<Rightarrow> int \<Rightarrow> string \<Rightarrow> (jserror + page_row) \<times> world" where
  "createPage w bookId pageNumber imageUrl =
     (let row = \<lparr>page_id = fresh_page_id (pages w), book_id = bookId, page_number = pageNumber,
                  image_url = (if imageUrl \<noteq> [] then imageUrl else ''placeholder'')\<rparr>
      in (Inr row, w\<lparr>pages := pages w @ [row]\<rparr>))"

definition getOrCreatePage ::
  "world \<Rightarrow> string \<Rightarrow> int \<Rightarrow> string \<Rightarrow> (jserror + page_row) \<times> world" where
  "getOrCreatePage w bookId pageNumber imageUrl =
     (case getPageByBookAndNumber w bookId pageNumber of
        Inl e \<Rightarrow> (Inl e, w)
      | Inr (Some page) \<Rightarrow> (Inr page, w)
      | Inr None \<Rightarrow> createPage w bookId pageNumber imageUrl)"

text \<open>The inner join \<open>pages!inner\<close>: a row of \<open>page_text\<close> or \<open>page_audio\<close> is joined with
  the page its \<open>page_id\<close> names, and kept when that page is the one asked for.\<close>

definition joined_page :: "world \<Rightarrow> nat \<Rightarrow> page_row option" where
  "joined_page w i = find (\<lambda>p. page_id p = i) (pages w)"

definition on_page :: "world \<Rightarrow> string \<Rightarrow> int \<Rightarrow> nat \<Rightarrow> bool" where
  "on_page w bookId pageNumber i =
     (case joined_page w i of
        None \<Rightarrow> False
      | Some p \<Rightarrow> book_id p = bookId \<and> page_number p = pageNumber)"

definition getPageTextByBookAndNumber ::
  "world \<Rightarrow> string \<Rightarrow> int \<Rightarrow> jserror + text_row option" where
  "getPageTextByBookAndNumber w bookId pageNumber =
     data_or_null (single (filter (\<lambda>t. on_page w bookId pageNumber (text_page_id t)) (page_text w)))"

definition getPageAudioByBookAndNumber ::
  "world \<Rightarrow> string \<Rightarrow> int \<Rightarrow> string \<Rightarrow> jserror + audio_row option" where
  "getPageAudioByBookAndNumber w bookId pageNumber voicePersona =
     data_or_null (single (filter (\<lambda>a. on_page w bookId pageNumber (audio_page_id a)
                                       \<and> voice_persona a = voicePersona) (page_audio w)))"

text \<open>
  Modelled from the spec: the key of the upserts of \<open>savePageText\<close> and \<open>savePageAudio\<close>.
  The schema of the tables is not in the sources; the spec gives at most one row of text
  per page and one row of audio per page and voice persona, created or overwritten by the
  upsert, so the row with the same key is replaced.
\<close>

definition savePageText :: "world \<Rightarrow> nat \<Rightarrow> jsval \<Rightarrow> rat \<Rightarrow> (jserror + text_row) \<times> world" where
  "savePageText w pageId extractedText confidence =
     (let row = \<lparr>text_page_id = pageId, extracted_text = extractedText,
                  extraction_confidence = confidence\<rparr>
      in (Inr row,
          w\<lparr>page_text := filter (\<lambda>t. text_page_id t \<noteq> pageId) (page_text w) @ [row]\<rparr>))"

definition savePageAudio :: "world \<Rightarrow> nat \<Rightarrow> audio_row \<Rightarrow> (jserror + audio_row) \<times> world" where
  "savePageAudio w pageId audioData =
     (let row = audioData\<lparr>audio_page_id := pageId,
                  voice_persona := (if voice_persona audioData \<noteq> [] then voice_persona audioData
                                    else ''default''),
                  audio_format := (if audio_format audioData \<noteq> [] then audio_format audioData
                                   else ''wav'')\<rparr>
      in (Inr row,
          w\<lparr>page_audio :=
               filter (\<lambda>a. \<not> (audio_page_id a = pageId \<and> voice_persona a = voice_persona row))
                 (page_audio w) @ [row]\<rparr>))"

text \<open>\<open>saveAudioFile\<close>: the upload overwrites the path (\<open>upsert: true\<close>) and the public
  URL of the path is returned.\<close>

definition saveAudioFile ::
  "(string \<Rightarrow> string) \<Rightarrow> world \<Rightarrow> byte list \<Rightarrow> string \<Rightarrow> (jserror + string) \<times> world" where
  "saveAudioFile publicUrl w audioBuffer filePath =
     (Inr (publicUrl filePath), w\<lparr>files := AList.update filePath audioBuffer (files w)\<rparr>)"

section \<open>Generation Backend client (geminiService.js)\<close>

record tts_response =
  inline_data :: "string option"
  inline_mimeType :: "string option"

text \<open>
  What the services are given: the runtime's \<open>JSON.parse\<close> and base64 decoder, the public
  URL of a storage path, the configuration, and the Generation Backend. The backend is an
  oracle: the outcome of the request number \<open>i\<close> (counted from 0 over both capabilities),
  a thrown error or the text of the stream, respectively the inline data of the first
  part and its MIME type.
\<close>

record env =
  parse_json :: "string \<Rightarrow> jsval option"
  decode_base64 :: "string \<Rightarrow> byte list"
  public_url :: "string \<Rightarrow> string"
  generateContentStream :: "nat \<Rightarrow> string \<Rightarrow> string \<Rightarrow> jserror + string"
  generateContent :: "nat \<Rightarrow> string \<Rightarrow> jserror + tts_response"
  maxRetries :: int
  retryDelay :: int
  maxTextLength :: nat

definition startsWith :: "string \<Rightarrow> string \<Rightarrow> bool" where
  "startsWith s p = (take (length p) s = p)"

fun string_includes :: "string \<Rightarrow> string \<Rightarrow> bool" where
  "string_includes [] p = (p = [])"
| "string_includes (c # cs) p = (startsWith (c # cs) p \<or> string_includes cs p)"

text \<open>\<open>error.message\<close>; the message of an error of the runtime itself holds no status code.\<close>

fun message :: "jserror \<Rightarrow> string" where
  "message (Error m) = m"
| "message e = []"

definition parseResponse :: "env \<Rightarrow> string \<Rightarrow> jsval" where
  "parseResponse env fullText =
     (case parse_json env fullText of
        Some v \<Rightarrow> v
      | None \<Rightarrow>
          JObj [(''header'', JStr []),
                (''body'', JStr (if fullText \<noteq> [] then fullText else ''Text extraction failed'')),
                (''footer'', JStr [])])"

definition processImageToText ::
  "env \<Rightarrow> string \<Rightarrow> string \<Rightarrow> world \<Rightarrow> (jserror + jsval) \<times> world" where
  "processImageToText env imageData mimeType w =
     (if imageData = [] then (Inl (Error ''Image data is required''), w)
      else if mimeType = [] then (Inl (Error ''MIME type is required''), w)
      else if \<not> startsWith mimeType ''image/''
        then (Inl (Error (''Invalid MIME type: '' @ mimeType @ ''. Expected image type.'')), w)
      else
        (case generateContentStream env (requests w) imageData mimeType of
           Inl e \<Rightarrow> (Inl e, w\<lparr>requests := Suc (requests w)\<rparr>)
         | Inr fullText \<Rightarrow> (Inr (parseResponse env fullText), w\<lparr>requests := Suc (requests w)\<rparr>)))"

record audio_payload =
  payload_data :: string
  payload_mimeType :: string

text \<open>The operation that \<open>generateAudio\<close> hands to \<open>retryWithBackoff\<close>: one request, and
  an error of its own when the response carries no audio.\<close>

definition tts_attempt :: "env \<Rightarrow> string \<Rightarrow> nat \<Rightarrow> jserror + audio_payload" where
  "tts_attempt env truncatedText i =
     (case generateContent env i truncatedText of
        Inl e \<Rightarrow> Inl e
      | Inr response \<Rightarrow>
          (case inline_data response of
             None \<Rightarrow> Inl (Error ''No audio data in response'')
           | Some audioData \<Rightarrow>
               if audioData = [] then Inl (Error ''No audio data in response'')
               else Inr \<lparr>payload_data = audioData,
                         payload_mimeType = (case inline_mimeType response of None \<Rightarrow> [] | Some m \<Rightarrow> m)\<rparr>))"

definition tts_operation ::
  "env \<Rightarrow> string \<Rightarrow> world \<Rightarrow> (jserror + audio_payload) \<times> world" where
  "tts_operation env truncatedText w =
     (tts_attempt env truncatedText (requests w), w\<lparr>requests := Suc (requests w)\<rparr>)"

text \<open>
  \<open>retryWithBackoff\<close>, the loop from \<open>attempts\<close> on. The result is \<open>None\<close> when the loop
  ends without running the operation (the function then returns undefined).
\<close>

function retry_from ::
  "env \<Rightarrow> (world \<Rightarrow> (jserror + 'a) \<times> world) \<Rightarrow> int \<Rightarrow> world \<Rightarrow> (jserror + 'a option) \<times> world" where
  "retry_from env operation attempts w =
     (if attempts < maxRetries env then
        (case operation w of
           (Inr v, w') \<Rightarrow> (Inr (Some v), w')
         | (Inl e, w') \<Rightarrow>
             if string_includes (message e) ''429'' \<and> attempts + 1 < maxRetries env then
               retry_from env operation (attempts + 1)
                 (w'\<lparr>sleeps := sleeps w' @ [2 ^ nat (attempts + 1) * retryDelay env]\<rparr>)
             else (Inl e, w'))
      else (Inr None, w))"
  by pat_completeness auto
termination
  by (relation "measure (\<lambda>(env, operation, attempts, w). nat (maxRetries env - attempts))") auto

declare retry_from.simps [simp del]

definition retryWithBackoff ::
  "env \<Rightarrow> (world \<Rightarrow> (jserror + 'a) \<times> world) \<Rightarrow> world \<Rightarrow> (jserror + 'a option) \<times> world" where
  "retryWithBackoff env operation w = retry_from env operation 0 w"

definition generateAudio ::
  "env \<Rightarrow> string \<Rightarrow> world \<Rightarrow> (jserror + audio_payload option) \<times> world" where
  "generateAudio env text w =
     (let truncatedText = (if length text > maxTextLength env
                           then take (maxTextLength env) text @ ''...'' else text)
      in retryWithBackoff env (tts_operation env truncatedText) w)"

section \<open>Page Artifact Cache (pageCacheService.js)\<close>

datatype page_view = Embedded string int | Row page_row

record cache_result =
  cached :: bool
  result_page :: page_view

record text_result = cache_result +
  result_text :: normalized_text

record audio_result = cache_result +
  audioUrl :: string
  duration :: int

text \<open>On a hit the result carries the embedded page of the join (\<open>existingText.pages\<close>), on
  a miss the row of the page. \<open>userId\<close> is used for logging only.\<close>

definition getOrExtractPageText ::
  "env \<Rightarrow> string \<Rightarrow> int \<Rightarrow> string \<Rightarrow> string \<Rightarrow> string \<Rightarrow> world
     \<Rightarrow> (jserror + text_result) \<times> world" where
  "getOrExtractPageText env bookId pageNumber imageData imageType userId w =
     (case getPageTextByBookAndNumber w bookId pageNumber of
        Inl e \<Rightarrow> (Inl e, w)
      | Inr (Some existingText) \<Rightarrow>
          (case normalizeExtractedText (parse_json env) (extracted_text existingText) of
             Inl e \<Rightarrow> (Inl e, w)
           | Inr normalizedText \<Rightarrow>
               (Inr \<lparr>cached = True, result_page = Embedded bookId pageNumber,
                     result_text = normalizedText\<rparr>, w))
      | Inr None \<Rightarrow>
          (case getOrCreatePage w bookId pageNumber ''placeholder'' of
             (Inl e, w1) \<Rightarrow> (Inl e, w1)
           | (Inr pg, w1) \<Rightarrow>
               (case processImageToText env imageData imageType w1 of
                  (Inl e, w2) \<Rightarrow> (Inl e, w2)
                | (Inr extractedText, w2) \<Rightarrow>
                    (case savePageText w2 (page_id pg) extractedText (95 / 100) of
                       (Inl e, w3) \<Rightarrow> (Inl e, w3)
                     | (Inr saved, w3) \<Rightarrow>
                         (case normalizeExtractedText (parse_json env) extractedText of
                            Inl e \<Rightarrow> (Inl e, w3)
                          | Inr normalizedText \<Rightarrow>
                              (Inr \<lparr>cached = False, result_page = Row pg,
                                    result_text = normalizedText\<rparr>, w3))))))"

text \<open>\<open>Math.round\<close>: to the nearest integer, a half upwards. The quotient below is exact
  here; as a double it rounds to the same integer for every length a buffer can have.\<close>

definition math_round :: "rat \<Rightarrow> int" where
  "math_round x = \<lfloor>x + 1 / 2\<rfloor>"

definition estimatedDuration :: "byte list \<Rightarrow> int" where
  "estimatedDuration wavBuffer = math_round (of_nat (length wavBuffer) / (44100 * 2 * 2))"

text \<open>Template literals: a number as decimal text; \<open>toLowerCase\<close> on 8-bit code units.\<close>

fun show_nat :: "nat \<Rightarrow> string" where
  "show_nat n =
     (if n < 10 then [char_of (48 + n)] else show_nat (n div 10) @ [char_of (48 + n mod 10)])"

definition show_int :: "int \<Rightarrow> string" where
  "show_int i = (if i < 0 then CHR ''-'' # show_nat (nat (- i)) else show_nat (nat i))"

definition toLowerCase :: "string \<Rightarrow> string" where
  "toLowerCase s =
     map (\<lambda>c. let n = char_code c
               in if (65 \<le> n \<and> n \<le> 90) \<or> (192 \<le> n \<and> n \<le> 222 \<and> n \<noteq> 215)
                  then char_of (n + 32) else c) s"

text \<open>
  \<open>getOrGeneratePageAudio\<close>, in three parts: what follows the conversion to WAV (the
  upload, the duration, the row), the branch of a cache miss, and the function with its
  lookup. The default voice persona applies when the caller leaves the argument out.
\<close>

definition store_page_audio ::
  "env \<Rightarrow> string \<Rightarrow> int \<Rightarrow> string \<Rightarrow> string \<Rightarrow> page_row \<Rightarrow> byte list \<Rightarrow> world
     \<Rightarrow> (jserror + audio_result) \<times> world" where
  "store_page_audio env bookId pageNumber voicePersona userId pg wavBuffer w =
     (let fileName = ''page_'' @ show_int pageNumber @ ''_'' @ toLowerCase voicePersona @ ''.wav'';
          filePath = ''audio/'' @ userId @ ''/'' @ bookId @ ''/'' @ fileName
      in case saveAudioFile (public_url env) w wavBuffer filePath of
           (Inl e, w3) \<Rightarrow> (Inl e, w3)
         | (Inr url, w3) \<Rightarrow>
             (let estimated = estimatedDuration wavBuffer
              in case savePageAudio w3 (page_id pg)
                        \<lparr>audio_page_id = page_id pg,
                         voice_persona = voicePersona,
                         audio_url = Some url,
                         audio_duration_seconds = estimated,
                         audio_format = ''wav'',
                         audio_size_bytes = length wavBuffer,
                         voice_settings = voicePersona\<rparr> of
                   (Inl e, w4) \<Rightarrow> (Inl e, w4)
                 | (Inr saved, w4) \<Rightarrow>
                     (Inr \<lparr>cached = False, result_page = Row pg,
                           audioUrl = url, duration = estimated\<rparr>, w4)))"

definition generate_page_audio ::
  "env \<Rightarrow> string \<Rightarrow> int \<Rightarrow> string \<Rightarrow> string \<Rightarrow> string \<Rightarrow> world
     \<Rightarrow> (jserror + audio_result) \<times> world" where
  "generate_page_audio env bookId pageNumber content voicePersona userId w =
     (case getOrCreatePage w bookId pageNumber ''placeholder'' of
        (Inl e, w1) \<Rightarrow> (Inl e, w1)
      | (Inr pg, w1) \<Rightarrow>
          (case generateAudio env content w1 of
             (Inl e, w2) \<Rightarrow> (Inl e, w2)
           | (Inr None, w2) \<Rightarrow> (Inl TypeError, w2)
           | (Inr (Some generated), w2) \<Rightarrow>
               (case convertToWav (decode_base64 env) (payload_data generated)
                       (payload_mimeType generated) of
                  Inl e \<Rightarrow> (Inl e, w2)
                | Inr wavBuffer \<Rightarrow>
                    store_page_audio env bookId pageNumber voicePersona userId pg wavBuffer w2)))"

definition getOrGeneratePageAudio ::
  "env \<Rightarrow> string \<Rightarrow> int \<Rightarrow> string \<Rightarrow> string option \<Rightarrow> string \<Rightarrow> world
     \<Rightarrow> (jserror + audio_result) \<times> world" where
  "getOrGeneratePageAudio env bookId pageNumber content voicePersona_arg userId w =
     (let voicePersona = (case voicePersona_arg of None \<Rightarrow> ''Zephyr'' | Some v \<Rightarrow> v);
          miss = generate_page_audio env bookId pageNumber content voicePersona userId w
      in case getPageAudioByBookAndNumber w bookId pageNumber voicePersona of
           Inl e \<Rightarrow> (Inl e, w)
         | Inr None \<Rightarrow> miss
         | Inr (Some existingAudio) \<Rightarrow>
             (case audio_url existingAudio of
                None \<Rightarrow> miss
              | Some url \<Rightarrow>
                  if url \<noteq> [] then
                    (Inr \<lparr>cached = True, result_page = Embedded bookId pageNumber,
                          audioUrl = url,
                          duration = audio_duration_seconds existingAudio\<rparr>, w)
                  else miss))"

text \<open>
  The duration that C6 describes: the byte length over
  \<open>sampleRate * channelCount * bytesPerSample\<close>, with the values the codec read from the
  descriptor. It is undefined (\<open>None\<close>) when one of them is not a number or the product
  is zero.
\<close>

definition described_duration :: "nat \<Rightarrow> wav_options \<Rightarrow> rat option" where
  "described_duration byteLength options =
     (case (sampleRate options, numChannels options, bitsPerSample options) of
        (Num s, Num c, Num b) \<Rightarrow>
          if s * c * (b / 8) = 0 then None else Some (of_nat byteLength / (s * c * (b / 8)))
      | _ \<Rightarrow> None)"

text \<open>The tables as the database keeps them: the identifier of a page is a key.\<close>

definition store_ok :: "world \<Rightarrow> bool" where
  "store_ok w = distinct (map page_id (pages w))"

text \<open>The rows of text cached for a page, and of audio for a page and a voice.\<close>

definition cached_text :: "world \<Rightarrow> string \<Rightarrow> int \<Rightarrow> text_row list" where
  "cached_text w bookId pageNumber =
     filter (\<lambda>t. on_page w bookId pageNumber (text_page_id t)) (page_text w)"

definition empty_world :: world where
  "empty_world = \<lparr>pages = [], page_text = [], page_audio = [], files = [], requests = 0, sleeps = []\<rparr>"

text \<open>A backend that answers every request, for concrete runs.\<close>

definition demo_env :: env where
  "demo_env =
     \<lparr>parse_json = JSON_parse, decode_base64 = base64_decode,
      public_url = (\<lambda>p. ''https://storage/'' @ p),
      generateContentStream = (\<lambda>i img mt. Inr ''{\"header\":\"H\",\"body\":\"B\",\"footer\":\"F\"}''),
      generateContent = (\<lambda>i t. Inr \<lparr>inline_data = Some ''TWFu'',
                                        inline_mimeType = Some ''audio/L16;rate=24000''\<rparr>),
      maxRetries = 3, retryDelay = 1000, maxTextLength = 1000\<rparr>"


text \<open>A backend whose speech synthesis returns 480,000 bytes of 16-bit mono audio at
  24 kHz (ten seconds), as 640,000 characters of base64.\<close>

definition long_audio_env :: env where
  "long_audio_env =
     demo_env
       \<lparr>generateContent :=
          (\<lambda>i t. Inr \<lparr>inline_data = Some (replicate 640000 (CHR ''A'')),
                            inline_mimeType = Some ''audio/L16;rate=24000''\<rparr>)\<rparr>"

section \<open>Conversation Session Manager: \<open>sendMessage\<close> (chatController.js)\<close>

record conversation_row =
  conversation_id :: string
  user_id :: string
  gemini_file_uri :: "string option"
  gemini_file_name :: "string option"
  cache_expires_at :: "int option"

record ai_message =
  message_id :: nat
  message_conversation_id :: string
  message_role :: string
  message_content :: string
  tokens_used :: int
  cost :: rat

record token_usage =
  prompt :: int
  candidates :: int
  cached_tokens :: int
  total :: int

record generation =
  generated_text :: string
  tokensUsed :: token_usage

text \<open>
  The state of the chat: the two tables and the number of requests sent to the Generation
  Backend for grounded answers. A time is a number of milliseconds; \<open>cache_expires_at\<close> is
  null (\<open>None\<close>) or a time.
\<close>

record chat_world =
  ai_conversations :: "conversation_row list"
  ai_messages :: "ai_message list"
  generations :: nat

text \<open>What the controller is given: the backend as an oracle (the outcome of request
  number \<open>i\<close> for a file, a message, a history and a system instruction), the configured
  bound of the history (\<open>None\<close> when not set) and the system instruction.\<close>

record chat_env =
  generateContent_with_file ::
    "nat \<Rightarrow> string \<Rightarrow> string \<Rightarrow> jsval list \<Rightarrow> string \<Rightarrow> jserror + generation"
  maxConversationHistory :: "int option"
  systemInstruction :: string

text \<open>\<open>getConversationById\<close> uses \<open>.single()\<close> and throws on every error, the error of no
  row included.\<close>

definition getConversationById :: "chat_world \<Rightarrow> string \<Rightarrow> jserror + conversation_row option" where
  "getConversationById cw conversationId =
     data_or_throw (single (filter (\<lambda>c. conversation_id c = conversationId) (ai_conversations cw)))"

text \<open>A row of \<open>ai_messages\<close> as the object the client returns.\<close>

definition message_object :: "ai_message \<Rightarrow> jsval" where
  "message_object m =
     JObj [(''id'', JNum (Num (of_nat (message_id m)))),
           (''conversation_id'', JStr (message_conversation_id m)),
           (''role'', JStr (message_role m)),
           (''content'', JStr (message_content m)),
           (''tokens_used'', JNum (Num (of_int (tokens_used m)))),
           (''cost'', JNum (Num (cost m)))]"

definition getConversationMessages :: "chat_world \<Rightarrow> string \<Rightarrow> jserror + jsval" where
  "getConversationMessages cw conversationId =
     Inr (JArr (map message_object
                  (filter (\<lambda>m. message_conversation_id m = conversationId) (ai_messages cw))))"

definition createMessage ::
  "chat_world \<Rightarrow> string \<Rightarrow> string \<Rightarrow> string \<Rightarrow> int \<Rightarrow> rat \<Rightarrow> (jserror + ai_message) \<times> chat_world" where
  "createMessage cw conversationId r content tokens c =
     (let row = \<lparr>message_id = Suc (length (ai_messages cw)),
                  message_conversation_id = conversationId, message_role = r,
                  message_content = content, tokens_used = tokens, cost = c\<rparr>
      in (Inr row, cw\<lparr>ai_messages := ai_messages cw @ [row]\<rparr>))"

text \<open>\<open>generateWithFile\<close> of the document service: two checks of its arguments, then one
  request, whose failure is thrown again under a new message.\<close>

definition generateWithFile ::
  "chat_env \<Rightarrow> string \<Rightarrow> string \<Rightarrow> jsval list \<Rightarrow> string \<Rightarrow> chat_world
     \<Rightarrow> (jserror + generation) \<times> chat_world" where
  "generateWithFile cenv fileUri userMessage conversationHistory instruction cw =
     (if fileUri = [] then (Inl (Error ''File URI is required''), cw)
      else if userMessage = [] then (Inl (Error ''User message is required''), cw)
      else
        (case generateContent_with_file cenv (generations cw) fileUri userMessage
                conversationHistory instruction of
           Inl e \<Rightarrow> (Inl (Error (''Failed to generate content: '' @ message e)),
                      cw\<lparr>generations := Suc (generations cw)\<rparr>)
         | Inr g \<Rightarrow> (Inr g, cw\<lparr>generations := Suc (generations cw)\<rparr>)))"

definition calculateMessageCost :: "token_usage \<Rightarrow> rat" where
  "calculateMessageCost t =
     of_int (cached_tokens t) * (1 / 100000) + of_int (prompt t) * (15 / 100000)
       + of_int (candidates t) * (60 / 100000)"

text \<open>
  What the handler answers: \<open>res.status(n).json({error, code})\<close>, the same with the error
  of the validation, the reply of a successful exchange, or \<open>next(error)\<close>, which leaves
  the answer to the generic error handler.
\<close>

datatype chat_response =
    JsonError nat string "string option"
  | JsonValidation nat verror
  | JsonReply string nat token_usage
  | Next jserror

text \<open>What the \<open>try\<close> block throws: the \<open>CacheExpiredError\<close> of the controller or anything
  else.\<close>

datatype thrown = CacheExpiredError string | Thrown jserror

record chat_request =
  conversationId :: "string option"
  user_message :: "string option"

text \<open>The body of the \<open>try\<close> block. \<open>now\<close> is \<open>new Date()\<close>.\<close>

definition sendMessage_try ::
  "chat_env \<Rightarrow> int \<Rightarrow> string \<Rightarrow> chat_request \<Rightarrow> chat_world
     \<Rightarrow> (thrown + chat_response) \<times> chat_world" where
  "sendMessage_try cenv now userId request cw =
     (case (conversationId request, user_message request) of
        (Some cid, Some msg) \<Rightarrow>
          if cid = [] \<or> msg = [] then
            (Inr (JsonError 400 ''conversationId and message are required'' None), cw)
          else if length msg > 10000 then
            (Inr (JsonError 400 ''Message too long (max 10000 characters)'' None), cw)
          else
            (case getConversationById cw cid of
               Inl e \<Rightarrow> (Inl (Thrown e), cw)
             | Inr None \<Rightarrow> (Inr (JsonError 404 ''Conversation not found'' None), cw)
             | Inr (Some conversation) \<Rightarrow>
                 if user_id conversation \<noteq> userId then
                   (Inr (JsonError 403 ''Access denied to this conversation'' None), cw)
                 else if (case cache_expires_at conversation of
                            None \<Rightarrow> False | Some t \<Rightarrow> t < now) then
                   (Inl (CacheExpiredError ''File has expired. Please upload the book again.''), cw)
                 else
                   (case gemini_file_uri conversation of
                      None \<Rightarrow> (Inl (CacheExpiredError ''Conversation is not prepared for chat''), cw)
                    | Some uri \<Rightarrow>
                        if uri = [] then
                          (Inl (CacheExpiredError ''Conversation is not prepared for chat''), cw)
                        else
                          (case getConversationMessages cw cid of
                             Inl e \<Rightarrow> (Inl (Thrown e), cw)
                           | Inr history \<Rightarrow>
                               (case validateHistory history of
                                  Inl e \<Rightarrow> (Inl (Thrown e), cw)
                                | Inr validation \<Rightarrow>
                                    if \<not> isValid validation then
                                      (Inr (JsonValidation 400
                                              (case error validation of
                                                 None \<Rightarrow> NotAnArray | Some ve \<Rightarrow> ve)), cw)
                                    else
                                      (let bound = (case maxConversationHistory cenv of
                                                      None \<Rightarrow> 10
                                                    | Some k \<Rightarrow> if k = 0 then 10 else k);
                                           trimmedHistory = trimHistory history (Some bound)
                                       in case generateWithFile cenv uri msg trimmedHistory
                                                 (systemInstruction cenv) cw of
                                            (Inl e, cw1) \<Rightarrow> (Inl (Thrown e), cw1)
                                          | (Inr response, cw1) \<Rightarrow>
                                              (case createMessage cw1 cid ''user'' msg
                                                      (prompt (tokensUsed response)) 0 of
                                                 (Inl e, cw2) \<Rightarrow> (Inl (Thrown e), cw2)
                                               | (Inr userMessage, cw2) \<Rightarrow>
                                                   (case createMessage cw2 cid ''assistant''
                                                           (generated_text response)
                                                           (candidates (tokensUsed response))
                                                           (calculateMessageCost (tokensUsed response)) of
                                                      (Inl e, cw3) \<Rightarrow> (Inl (Thrown e), cw3)
                                                    | (Inr assistantMessage, cw3) \<Rightarrow>
                                                        (Inr (JsonReply (generated_text response)
                                                                (message_id assistantMessage)
                                                                (tokensUsed response)), cw3))))))))
      | _ \<Rightarrow> (Inr (JsonError 400 ''conversationId and message are required'' None), cw))"

text \<open>\<open>sendMessage\<close>: the \<open>try\<close> block and its \<open>catch\<close>, which answers a
  \<open>CacheExpiredError\<close> with its status 410 and the code \<open>CACHE_EXPIRED\<close> and passes
  every other error on.\<close>

definition sendMessage ::
  "chat_env \<Rightarrow> int \<Rightarrow> string \<Rightarrow> chat_request \<Rightarrow> chat_world \<Rightarrow> chat_response \<times> chat_world" where
  "sendMessage cenv now userId request cw =
     (case sendMessage_try cenv now userId request cw of
        (Inr response, cw') \<Rightarrow> (response, cw')
      | (Inl (CacheExpiredError m), cw') \<Rightarrow> (JsonError 410 m (Some ''CACHE_EXPIRED''), cw')
      | (Inl (Thrown e), cw') \<Rightarrow> (Next e, cw'))"

text \<open>A chat with one conversation, owned by \<open>u1\<close> and never prepared, and a backend that
  answers.\<close>

definition demo_chat :: chat_world where
  "demo_chat =
     \<lparr>ai_conversations =
        [\<lparr>conversation_id = ''c1'', user_id = ''u1'', gemini_file_uri = None,
          gemini_file_name = None, cache_expires_at = None\<rparr>],
      ai_messages = [], generations = 0\<rparr>"

definition demo_chat_env :: chat_env where
  "demo_chat_env =
     \<lparr>generateContent_with_file =
        (\<lambda>i uri msg history instruction.
           Inr \<lparr>generated_text = ''answer'',
                tokensUsed = \<lparr>prompt = 10, candidates = 5, cached_tokens = 0, total = 15\<rparr>\<rparr>),
      maxConversationHistory = None, systemInstruction = ''You are a reading assistant''\<rparr>"

section \<open>Properties of the History Curator\<close>

lemma slice_neg: "0 < n \<Longrightarrow> array_slice xs (- n) = drop (length xs - nat n) xs"
  by (auto simp: array_slice_def Let_def max_def nat_diff_distrib' intro: arg_cong [where f = "\<lambda>k. drop k xs"])

lemma slice_zero: "array_slice xs 0 = xs"
  by (simp add: array_slice_def)

lemma slice_one: "array_slice xs 1 = tl xs"
  by (cases xs) (auto simp: array_slice_def Let_def min_def drop_Suc)

text \<open>For a positive bound the function keeps the last \<open>maxMessages\<close> entries and drops
  the oldest of them when their number is odd and above one.\<close>

lemma trimHistory_positive_bound:
  assumes "0 < n"
  shows "trimHistory (JArr ms) (Some n) =
           (let kept = drop (length ms - nat n) ms
            in if odd (length kept) \<and> 1 < length kept then tl kept else kept)"
  using assms by (simp add: trimHistory_def Let_def slice_neg slice_one odd_iff_mod_2_eq_one)

text \<open>With the bound 0 the source's \<open>slice(-0)\<close> is \<open>slice(0)\<close> and the whole list is kept.
  The one caller, \<open>sendMessage\<close>, passes \<open>maxConversationHistory || 10\<close>, so this bound
  does not reach the function from there.\<close>

lemma trimHistory_zero_bound:
  "trimHistory (JArr ms) (Some 0) = (if odd (length ms) \<and> 1 < length ms then tl ms else ms)"
  by (simp add: trimHistory_def slice_zero slice_one odd_iff_mod_2_eq_one)

text \<open>Whatever the bound, the result is the list less some of its oldest entries.\<close>

lemma array_slice_suffix: "\<exists>dropped. xs = dropped @ array_slice xs k"
proof -
  have "\<exists>j. array_slice xs k = drop j xs"
    by (auto simp: array_slice_def Let_def)
  then obtain j where "array_slice xs k = drop j xs" ..
  then have "xs = take j xs @ array_slice xs k"
    by simp
  then show ?thesis ..
qed

lemma trimHistory_suffix: "\<exists>dropped. ms = dropped @ trimHistory (JArr ms) bound"
proof -
  define n where "n = (case bound of None \<Rightarrow> 10 | Some k \<Rightarrow> k)"
  obtain d1 where d1: "ms = d1 @ array_slice ms (- n)"
    using array_slice_suffix by blast
  obtain d2 where d2: "array_slice ms (- n) = d2 @ array_slice (array_slice ms (- n)) 1"
    using array_slice_suffix by blast
  have "ms = (d1 @ d2) @ array_slice (array_slice ms (- n)) 1"
    using d1 d2 by (metis append_assoc)
  then show ?thesis
    using d1 unfolding trimHistory_def Let_def n_def [symmetric]
    by (cases "length (array_slice ms (- n)) mod 2 \<noteq> 0 \<and> 1 < length (array_slice ms (- n))")
       (auto simp del: append_assoc)
qed

text \<open>
  C4, amended. For every message list and every positive bound \<open>maxMessages\<close>, and for the
  default bound 10 when the caller gives none, \<open>trimHistory\<close> returns exactly the most
  recent \<open>maxMessages\<close> entries, less the oldest of them when their number is odd and above
  one. For every bound the result is the list less some of its oldest entries, so that no
  entry is reordered or altered.
\<close>

theorem trimHistory_keeps_most_recent:
  "(0 < n \<longrightarrow>
      trimHistory (JArr ms) (Some n) = described_trim ms n
      \<and> trimHistory (JArr ms) (Some n)
          = (let kept = drop (length ms - nat n) ms
             in if odd (length kept) \<and> 1 < length kept then tl kept else kept))
   \<and> trimHistory (JArr ms) None = described_trim ms 10
   \<and> (\<exists>dropped. ms = dropped @ trimHistory (JArr ms) bound)"
proof (intro conjI impI)
  assume "0 < n"
  then show "trimHistory (JArr ms) (Some n)
          = (let kept = drop (length ms - nat n) ms
             in if odd (length kept) \<and> 1 < length kept then tl kept else kept)"
    by (rule trimHistory_positive_bound)
  then show "trimHistory (JArr ms) (Some n) = described_trim ms n"
    by (simp add: described_trim_def most_recent_def)
next
  have "trimHistory (JArr ms) None = trimHistory (JArr ms) (Some 10)"
    by (simp add: trimHistory_def)
  then show "trimHistory (JArr ms) None = described_trim ms 10"
    using trimHistory_positive_bound [of 10 ms]
    by (simp add: described_trim_def most_recent_def)
next
  show "\<exists>dropped. ms = dropped @ trimHistory (JArr ms) bound"
    by (rule trimHistory_suffix)
qed

theorem trimHistory_keeps_most_recent_witness:
  "0 < (3::int)
   \<and> trimHistory (JArr [message_row ''user'' ''q1'', message_row ''assistant'' ''a1'',
                        message_row ''user'' ''q2'', message_row ''assistant'' ''a2'',
                        message_row ''user'' ''q3'']) (Some 3)
       = [message_row ''assistant'' ''a2'', message_row ''user'' ''q3'']
   \<and> trimHistory (JArr [message_row ''user'' ''q1'', message_row ''assistant'' ''a1'',
                        message_row ''user'' ''q2'', message_row ''assistant'' ''a2'',
                        message_row ''user'' ''q3'']) None
       = [message_row ''assistant'' ''a1'', message_row ''user'' ''q2'',
          message_row ''assistant'' ''a2'', message_row ''user'' ''q3'']"
  using trimHistory_keeps_most_recent
          [of 3 "[message_row ''user'' ''q1'', message_row ''assistant'' ''a1'',
                  message_row ''user'' ''q2'', message_row ''assistant'' ''a2'',
                  message_row ''user'' ''q3'']"]
  by (simp add: described_trim_def most_recent_def)

text \<open>
  C4 as stated, for every bound, fails at a negative bound, which \<open>sendMessage\<close> passes on
  when \<open>MAX_CONVERSATION_HISTORY\<close> is set to a negative number: \<open>slice(-maxMessages)\<close> is
  then \<open>slice(1)\<close> for the bound -1, and of three messages the two newest are returned
  where the most recent -1 entries are none.
\<close>

theorem trimHistory_negative_bound_keeps_more:
  "trimHistory (JArr [message_row ''user'' ''q1'', message_row ''assistant'' ''a1'',
                      message_row ''user'' ''q2'']) (Some (- 1))
     = [message_row ''assistant'' ''a1'', message_row ''user'' ''q2'']
   \<and> described_trim [message_row ''user'' ''q1'', message_row ''assistant'' ''a1'',
                      message_row ''user'' ''q2''] (- 1) = []"
  by (simp add: trimHistory_def array_slice_def described_trim_def most_recent_def)

lemma isString_truthy: "isString c \<Longrightarrow> truthy c = (chars c \<noteq> [])"
  by (cases c) auto

lemma validate_from_valid_entry:
  "valid_entry m \<Longrightarrow> validate_from k (m # rest) = validate_from (Suc k) rest"
  by (auto simp: valid_entry_def isString_truthy split: sum.splits)

lemma validate_from_prefix:
  "\<forall>m \<in> set pre. valid_entry m \<Longrightarrow>
     validate_from k (pre @ rest) = validate_from (k + length pre) rest"
proof (induction pre arbitrary: k)
  case Nil
  then show ?case by simp
next
  case (Cons m pre)
  then have "validate_from k ((m # pre) @ rest) = validate_from (Suc k) (pre @ rest)"
    using validate_from_valid_entry [of m k "pre @ rest"] by simp
  also have "\<dots> = validate_from (Suc k + length pre) rest"
    using Cons by simp
  finally show ?case by simp
qed




text \<open>An entry that is null or undefined has no property to read: when the loop reaches
  it, the read of \<open>message.role\<close> throws and \<open>validateHistory\<close> returns no result.\<close>

lemma validateHistory_throws_at_null_entry:
  assumes len: "length ms \<le> 50" and i: "i < length ms"
    and before: "\<forall>j<i. valid_entry (ms ! j)"
    and null: "ms ! i = JNull \<or> ms ! i = JUndefined"
  shows "validateHistory (JArr ms) = Inl TypeError"
proof -
  have split: "ms = take i ms @ (ms ! i) # drop (Suc i) ms"
    using i by (simp add: id_take_nth_drop)
  have pre: "\<forall>m \<in> set (take i ms). valid_entry m"
    using before i by (auto simp: in_set_conv_nth)
  have "validate_from 0 ms = validate_from 0 (take i ms @ (ms ! i) # drop (Suc i) ms)"
    using split by simp
  also have "\<dots> = validate_from i ((ms ! i) # drop (Suc i) ms)"
    using validate_from_prefix [OF pre, of 0] i by simp
  also have "\<dots> = Inl TypeError"
    using null by auto
  finally show ?thesis
    using len by (simp add: validateHistory_def)
qed




text \<open>
  C10. On an argument that is not an array (null and undefined among them)
  \<open>trimHistory\<close> and \<open>formatHistoryForGemini\<close> return the empty list and \<open>validateHistory\<close>
  returns an invalid result, none of them throwing; \<open>estimateTokens\<close> returns 0 on an
  argument that is not a string.
\<close>

theorem curator_total_on_non_sequence:
  "(\<not> isArray v \<longrightarrow>
      trimHistory v n = [] \<and> formatHistoryForGemini v = Inr []
      \<and> validateHistory v = Inr (invalid NotAnArray) \<and> \<not> isValid (invalid NotAnArray))
   \<and> (\<not> isString t \<longrightarrow> estimateTokens t = 0)"
  by (simp add: trimHistory_def formatHistoryForGemini_def validateHistory_def
      estimateTokens_def invalid_def Let_def)

theorem curator_total_on_non_sequence_witness:
  "\<not> isArray JNull \<and> trimHistory JNull None = [] \<and> formatHistoryForGemini JNull = Inr []
   \<and> validateHistory JNull = Inr (invalid NotAnArray)
   \<and> \<not> isString (JNum (Num 5)) \<and> estimateTokens (JNum (Num 5)) = 0"
  using curator_total_on_non_sequence [of JNull None "JNum (Num 5)"] by simp

section \<open>Properties of the text normalisation\<close>

lemma safe_field_total:
  "v \<noteq> JNull \<Longrightarrow> v \<noteq> JUndefined \<Longrightarrow>
     safe_field v k = Inr (case get_prop v k of Inr (JStr s) \<Rightarrow> s | _ \<Rightarrow> [])"
  by (cases v) (auto simp: safe_field_def split: option.splits jsval.splits)

text \<open>The mapping of the claim, for any parser: absent text gives empty fields, a string
  that does not parse is the body, and a parsed or structured value other than null gives
  its three fields, each kept when it is a string and empty otherwise.\<close>

lemma normalizeExtractedText_absent:
  "normalizeExtractedText p JNull = Inr \<lparr>header = [], body = [], footer = []\<rparr>"
  "normalizeExtractedText p JUndefined = Inr \<lparr>header = [], body = [], footer = []\<rparr>"
  by (simp_all add: normalizeExtractedText_def)

lemma normalizeExtractedText_unparsable:
  "p s = None \<Longrightarrow>
     normalizeExtractedText p (JStr s) = Inr \<lparr>header = [], body = s, footer = []\<rparr>"
  by (simp add: normalizeExtractedText_def)

lemma normalizeExtractedText_parsed:
  assumes "s \<noteq> []" and "p s = Some v" and "v \<noteq> JNull" and "v \<noteq> JUndefined"
  shows "normalizeExtractedText p (JStr s) =
           Inr \<lparr>header = (case get_prop v ''header'' of Inr (JStr h) \<Rightarrow> h | _ \<Rightarrow> []),
                body = (case get_prop v ''body'' of Inr (JStr b) \<Rightarrow> b | _ \<Rightarrow> []),
                footer = (case get_prop v ''footer'' of Inr (JStr f) \<Rightarrow> f | _ \<Rightarrow> [])\<rparr>"
  using assms by (simp add: normalizeExtractedText_def safe_field_total)

lemma normalizeExtractedText_structured:
  assumes "\<not> isString v" and "truthy v"
  shows "normalizeExtractedText p v =
           Inr \<lparr>header = (case get_prop v ''header'' of Inr (JStr h) \<Rightarrow> h | _ \<Rightarrow> []),
                body = (case get_prop v ''body'' of Inr (JStr b) \<Rightarrow> b | _ \<Rightarrow> []),
                footer = (case get_prop v ''footer'' of Inr (JStr f) \<Rightarrow> f | _ \<Rightarrow> [])\<rparr>"
proof -
  from assms have "v \<noteq> JNull" "v \<noteq> JUndefined" by auto
  with assms show ?thesis
    by (simp add: normalizeExtractedText_def safe_field_total)
qed

text \<open>The function throws exactly on a non-empty string whose parse is null.\<close>

lemma normalizeExtractedText_throws_iff:
  "(\<exists>e. normalizeExtractedText p raw = Inl e) \<longleftrightarrow>
     (\<exists>s. raw = JStr s \<and> s \<noteq> [] \<and> (p s = Some JNull \<or> p s = Some JUndefined))"
proof (cases "truthy raw")
  case False
  then show ?thesis
    by (cases raw) (auto simp: normalizeExtractedText_def)
next
  case True
  show ?thesis
  proof (cases "isString raw")
    case False
    with True show ?thesis
      using normalizeExtractedText_structured [of raw p] by (cases raw) auto
  next
    case str: True
    then obtain s where raw: "raw = JStr s" by (cases raw) auto
    with True have ne: "s \<noteq> []" by simp
    show ?thesis
    proof (cases "p s")
      case None
      then show ?thesis
        using raw normalizeExtractedText_unparsable [of p s] by simp
    next
      case (Some v)
      show ?thesis
      proof (cases "v = JNull \<or> v = JUndefined")
        case True
        then show ?thesis
          using raw ne Some by (auto simp: normalizeExtractedText_def safe_field_def)
      next
        case False
        then show ?thesis
          using raw ne Some normalizeExtractedText_parsed [of s p v] by auto
      qed
    qed
  qed
qed

lemma JSON_parse_null: "JSON_parse ''null'' = Some JNull"
  by (simp add: JSON_parse_def skip_ws_def is_json_ws_def strip_prefix_def eval_nat_numeral)

text \<open>
  C3. The claim: \<open>normalizeExtractedText\<close> never fails, whatever the stored value. On a
  stored string whose parse is the value null (the text \<open>null\<close>), the parse succeeds, the
  fallback of the \<open>catch\<close> is not taken, and reading \<open>parsed.header\<close> throws a TypeError.
\<close>

theorem normalizeExtractedText_throws_on_null_text:
  assumes "s \<noteq> []" and "p s = Some JNull"
  shows "normalizeExtractedText p (JStr s) = Inl TypeError"
  using assms by (simp add: normalizeExtractedText_def safe_field_def)

theorem normalizeExtractedText_throws_on_null_text_witness:
  "normalizeExtractedText JSON_parse (JStr ''null'') = Inl TypeError"
  using normalizeExtractedText_throws_on_null_text [of "''null''" JSON_parse] JSON_parse_null
  by simp

section \<open>Properties of the Audio Codec\<close>

lemma length_store [simp]: "length (store off bs buf) = length buf"
  by (induction bs arbitrary: off buf) auto

lemma nth_store:
  "i < length buf \<Longrightarrow>
     store off bs buf ! i = (if off \<le> i \<and> i < off + length bs then bs ! (i - off) else buf ! i)"
proof (induction bs arbitrary: off buf)
  case Nil
  then show ?case by auto
next
  case (Cons b bs)
  then show ?case
    by (auto simp: nth_Cons' nth_list_update Suc_diff_Suc)
qed

lemma take_drop_store_same:
  "off + length bs \<le> length buf \<Longrightarrow> take (length bs) (drop off (store off bs buf)) = bs"
  by (rule nth_equalityI) (auto simp: nth_store)

lemma take_drop_store_other:
  "off' + k \<le> off \<or> off + length bs \<le> off' \<Longrightarrow>
     take k (drop off' (store off bs buf)) = take k (drop off' buf)"
  by (rule nth_equalityI) (auto simp: nth_store)

lemma length_le_bytes [simp]: "length (le_bytes k n) = k"
  by (induction k arbitrary: n) auto

lemma le_value_Cons: "le_value (b # bs) = unat b + 256 * le_value bs"
  by (simp add: le_value_def)

lemma le_value_le_bytes: "n < 256 ^ k \<Longrightarrow> le_value (le_bytes k n) = n"
proof (induction k arbitrary: n)
  case 0
  then show ?case by (simp add: le_value_def)
next
  case (Suc k)
  then have "n div 256 < 256 ^ k"
    by (simp add: less_mult_imp_div_less mult.commute)
  then have "le_value (le_bytes k (n div 256)) = n div 256"
    using Suc.IH by blast
  moreover have "unat (of_nat n :: byte) = n mod 256"
    by (simp add: unat_of_nat)
  ultimately show ?case
    by (simp add: le_value_Cons)
qed


lemma take_drop_store_hit:
  "length bs = k \<Longrightarrow> off + k \<le> length buf \<Longrightarrow> take k (drop off (store off bs buf)) = bs"
  using take_drop_store_same [of off bs buf] by simp

lemma drop_store_hit:
  assumes "length bs = k" and "off + k = length buf"
  shows "drop off (store off bs buf) = bs"
  using take_drop_store_hit [OF assms(1), of off buf] assms by simp

lemma writeUIntLE_ok:
  assumes "0 \<le> r" and "r \<le> of_nat (2 ^ (8 * k) - 1)" and "offset + k \<le> length buf"
  shows "writeUIntLE k (Num r) offset buf = Inr (store offset (le_bytes k (nat \<lfloor>r\<rfloor>)) buf)"
  using assms by (simp add: writeUIntLE_def)

lemma floor_bound:
  fixes r :: rat
  assumes "0 \<le> r" and "r \<le> of_nat m"
  shows "nat \<lfloor>r\<rfloor> \<le> m"
proof -
  have "\<lfloor>r\<rfloor> \<le> \<lfloor>(of_nat m :: rat)\<rfloor>"
    using assms(2) by (rule floor_mono)
  then show ?thesis by simp
qed

lemma writeUInt32LE_ok:
  assumes "0 \<le> r" and "r \<le> 4294967295" and "offset + 4 \<le> length buf"
  shows "writeUInt32LE (Num r) offset buf = Inr (store offset (le_bytes 4 (nat \<lfloor>r\<rfloor>)) buf)"
  using assms by (simp add: writeUInt32LE_def writeUIntLE_def del: store.simps le_bytes.simps)

lemma writeUInt16LE_ok:
  assumes "0 \<le> r" and "r \<le> 65535" and "offset + 2 \<le> length buf"
  shows "writeUInt16LE (Num r) offset buf = Inr (store offset (le_bytes 2 (nat \<lfloor>r\<rfloor>)) buf)"
  using assms by (simp add: writeUInt16LE_def writeUIntLE_def del: store.simps le_bytes.simps)

lemma createWavHeader_ok:
  assumes "0 \<le> c" "c \<le> 65535" "0 \<le> s" "s \<le> 4294967295" "0 \<le> b" "b \<le> 65535"
    and "s * c * b / 8 \<le> 4294967295" and "c * b / 8 \<le> 65535" and "36 + n \<le> 4294967295"
  shows "createWavHeader n \<lparr>numChannels = Num c, sampleRate = Num s, bitsPerSample = Num b\<rparr>
           = Inr (wav_header n (nat \<lfloor>c\<rfloor>) (nat \<lfloor>s\<rfloor>) (nat \<lfloor>s * c * b / 8\<rfloor>)
                    (nat \<lfloor>c * b / 8\<rfloor>) (nat \<lfloor>b\<rfloor>))"
proof -
  have cb: "0 \<le> c * b / 8"
    using assms by simp
  have scb: "0 \<le> s * c * b / 8"
    using assms by simp
  have "(of_nat (36 + n) :: rat) \<le> of_nat 4294967295"
    using assms(9) by (rule of_nat_mono)
  moreover have "(of_nat n :: rat) \<le> of_nat 4294967295"
    using assms(9) by (intro of_nat_mono) simp
  ultimately have n: "(of_nat (36 + n) :: rat) \<le> 4294967295" "(of_nat n :: rat) \<le> 4294967295"
    by (simp_all del: of_nat_add)
  show ?thesis
    using assms cb scb n
    by (simp add: createWavHeader_def write_text_def writeUInt32LE_ok writeUInt16LE_ok
        wav_header_def del: store.simps le_bytes.simps of_nat_add)
qed


lemma wav_header_fields:
  assumes "36 + n < 2 ^ 32" "c < 2 ^ 16" "s < 2 ^ 32" "br < 2 ^ 32" "ba < 2 ^ 16" "b < 2 ^ 16"
  shows "length (wav_header n c s br ba b) = 44"
    and "field (wav_header n c s br ba b) 20 2 = 1"
    and "field (wav_header n c s br ba b) 22 2 = c"
    and "field (wav_header n c s br ba b) 24 4 = s"
    and "field (wav_header n c s br ba b) 28 4 = br"
    and "field (wav_header n c s br ba b) 32 2 = ba"
    and "field (wav_header n c s br ba b) 34 2 = b"
    and "field (wav_header n c s br ba b) 40 4 = n"
  using assms
  by (simp_all add: wav_header_def field_def take_drop_store_other take_drop_store_hit
      drop_store_hit le_value_le_bytes del: store.simps le_bytes.simps)

lemmas eval_codec = parseMimeType_def apply_param_def element_def trim_def is_js_ws_def char_code_def
      parseInt_def is_digit_def digits_val_def digit_val_def Let_def

lemma base64_Man: "base64_decode ''TWFu'' = [77, 97, 110]"
  by (simp add: base64_decode_def b64_value_def char_code_def List.map_filter_simps)

lemma parseMimeType_L16_24000:
  "parseMimeType ''audio/L16;rate=24000''
     = \<lparr>numChannels = Num 1, sampleRate = Num 24000, bitsPerSample = Num 16\<rparr>"
  by (simp add: eval_codec)

lemma parseMimeType_L65536:
  "parseMimeType ''audio/L65536''
     = \<lparr>numChannels = Num 1, sampleRate = Num 22050, bitsPerSample = Num 65536\<rparr>"
  by (simp add: eval_codec)

lemma parseMimeType_bad_rate:
  "parseMimeType ''audio/L16;rate=abc''
     = \<lparr>numChannels = Num 1, sampleRate = NaN, bitsPerSample = Num 16\<rparr>"
  by (simp add: eval_codec)

lemma parseMimeType_negative_rate:
  "parseMimeType ''audio/L16;rate=-1''
     = \<lparr>numChannels = Num 1, sampleRate = Num (- 1), bitsPerSample = Num 16\<rparr>"
  by (simp add: eval_codec)

lemma numChannels_fold_apply_param:
  "numChannels (fold apply_param ps options) = numChannels options"
  by (induction ps arbitrary: options) (auto simp: apply_param_def Let_def)

lemma numChannels_parseMimeType: "numChannels (parseMimeType mimeType) = Num 1"
  by (simp add: parseMimeType_def Let_def numChannels_fold_apply_param split: option.splits)

lemma writes_RangeError_16:
  "65535 < r \<or> r < 0 \<Longrightarrow> writeUInt16LE (Num r) off buf = Inl RangeError"
  by (auto simp: writeUInt16LE_def writeUIntLE_def)

lemma writes_RangeError_32:
  "4294967295 < r \<or> r < 0 \<Longrightarrow> writeUInt32LE (Num r) off buf = Inl RangeError"
  by (auto simp: writeUInt32LE_def writeUIntLE_def)

text \<open>
  C7 as stated, that \<open>convertToWav\<close> returns a buffer of 44 bytes and the payload whatever
  the descriptor, fails where a value does not fit its field: a depth of 65536 bits is
  refused by the 16-bit write and no buffer is returned.
\<close>

theorem convertToWav_throws_on_oversized_depth:
  "convertToWav base64_decode ''TWFu'' ''audio/L65536'' = Inl RangeError"
  by (simp add: convertToWav_def parseMimeType_L65536 base64_Man createWavHeader_def
      write_text_def writeUInt32LE_ok writeUInt16LE_ok writes_RangeError_16
      del: store.simps le_bytes.simps)

lemma convertToWav_negative_rate:
  "convertToWav base64_decode ''TWFu'' ''audio/L16;rate=-1'' = Inl RangeError"
  by (simp add: convertToWav_def parseMimeType_negative_rate base64_Man createWavHeader_def
      write_text_def writeUInt32LE_ok writeUInt16LE_ok writes_RangeError_32
      del: store.simps le_bytes.simps)

lemma nat_floor_less:
  fixes r :: rat
  assumes "0 \<le> r" and "r \<le> of_nat m"
  shows "nat \<lfloor>r\<rfloor> < Suc m"
  using floor_bound [OF assms] by simp

lemma length_wav_header: "length (wav_header n c s br ba b) = 44"
  by (simp add: wav_header_def del: store.simps le_bytes.simps)

text \<open>The buffer that \<open>convertToWav\<close> returns when every value fits its field.\<close>

lemma convertToWav_result:
  assumes rate: "sampleRate (parseMimeType mimeType) = Num s"
    and bits: "bitsPerSample (parseMimeType mimeType) = Num b"
    and s: "0 \<le> s" "s \<le> 4294967295"
    and b: "0 \<le> b" "b \<le> 65535"
    and br: "s * b / 8 \<le> 4294967295"
    and len: "36 + length (base64 rawData) \<le> 4294967295"
  shows "convertToWav base64 rawData mimeType
           = Inr (wav_header (length (base64 rawData)) 1 (nat \<lfloor>s\<rfloor>) (nat \<lfloor>s * b / 8\<rfloor>)
                    (nat \<lfloor>b / 8\<rfloor>) (nat \<lfloor>b\<rfloor>) @ base64 rawData)"
proof -
  define n where "n = length (base64 rawData)"
  have opts: "parseMimeType mimeType
                = \<lparr>numChannels = Num 1, sampleRate = Num s, bitsPerSample = Num b\<rparr>"
    using rate bits numChannels_parseMimeType [of mimeType]
    by (cases "parseMimeType mimeType") simp
  have ba: "b / 8 \<le> 65535"
    using b by simp
  have "createWavHeader n \<lparr>numChannels = Num 1, sampleRate = Num s, bitsPerSample = Num b\<rparr>
          = Inr (wav_header n (nat \<lfloor>1::rat\<rfloor>) (nat \<lfloor>s\<rfloor>) (nat \<lfloor>s * 1 * b / 8\<rfloor>)
                   (nat \<lfloor>1 * b / 8\<rfloor>) (nat \<lfloor>b\<rfloor>))"
    using s b br ba len by (intro createWavHeader_ok) (simp_all add: n_def)
  then show ?thesis
    by (simp add: convertToWav_def opts n_def Let_def)
qed

text \<open>
  C7, amended. When the sample rate and the bit depth read from the descriptor are numbers
  that fit their fields (rate within 32 bits, depth within 16 bits, byte rate within 32
  bits) and 36 plus the payload length fits 32 bits, \<open>convertToWav\<close> returns a buffer of
  exactly 44 bytes plus the payload: format tag 1 at offset 20, channel count 1 at 22, the
  sample rate at 24 to 27, the byte rate \<open>sampleRate * channels * bitsPerSample / 8\<close> at 28
  and the block alignment \<open>channels * bitsPerSample / 8\<close> at 32, both cut to whole
  numbers, the bit depth at 34, the payload length at 40 to 43, all little-endian, and
  then the payload unchanged.
\<close>

theorem convertToWav_header:
  assumes rate: "sampleRate (parseMimeType mimeType) = Num s"
    and bits: "bitsPerSample (parseMimeType mimeType) = Num b"
    and s: "0 \<le> s" "s \<le> 4294967295"
    and b: "0 \<le> b" "b \<le> 65535"
    and br: "s * b / 8 \<le> 4294967295"
    and len: "36 + length (base64 rawData) \<le> 4294967295"
  shows "\<exists>wav. convertToWav base64 rawData mimeType = Inr wav
           \<and> length wav = 44 + length (base64 rawData)
           \<and> field wav 20 2 = 1
           \<and> field wav 22 2 = 1
           \<and> field wav 24 4 = nat \<lfloor>s\<rfloor>
           \<and> field wav 28 4 = nat \<lfloor>s * b / 8\<rfloor>
           \<and> field wav 32 2 = nat \<lfloor>b / 8\<rfloor>
           \<and> field wav 34 2 = nat \<lfloor>b\<rfloor>
           \<and> field wav 40 4 = length (base64 rawData)
           \<and> drop 44 wav = base64 rawData"
proof -
  define n where "n = length (base64 rawData)"
  define h where "h = wav_header n 1 (nat \<lfloor>s\<rfloor>) (nat \<lfloor>s * b / 8\<rfloor>) (nat \<lfloor>b / 8\<rfloor>) (nat \<lfloor>b\<rfloor>)"
  have wav: "convertToWav base64 rawData mimeType = Inr (h @ base64 rawData)"
    using convertToWav_result [of mimeType s b base64 rawData] assms by (simp add: h_def n_def)
  have ba: "b / 8 \<le> 65535"
    using b by simp
  have bounds: "36 + n < 2 ^ 32" "(1::nat) < 2 ^ 16" "nat \<lfloor>s\<rfloor> < 2 ^ 32"
    "nat \<lfloor>s * b / 8\<rfloor> < 2 ^ 32" "nat \<lfloor>b / 8\<rfloor> < 2 ^ 16" "nat \<lfloor>b\<rfloor> < 2 ^ 16"
    using len s b br ba
      nat_floor_less [of s 4294967295] nat_floor_less [of "s * b / 8" 4294967295]
      nat_floor_less [of "b / 8" 65535] nat_floor_less [of b 65535]
    by (simp_all add: n_def)
  note f = wav_header_fields [OF bounds, folded h_def]
  have app: "\<And>off k. off + k \<le> 44 \<Longrightarrow> field (h @ base64 rawData) off k = field h off k"
    using f(1) by (simp add: field_def)
  show ?thesis
    using wav f by (simp add: app n_def)
qed

theorem convertToWav_header_witness:
  "\<exists>wav. convertToWav base64_decode ''TWFu'' ''audio/L16;rate=24000'' = Inr wav
      \<and> length wav = 47 \<and> field wav 20 2 = 1 \<and> field wav 22 2 = 1
      \<and> field wav 24 4 = 24000 \<and> field wav 28 4 = 48000 \<and> field wav 32 2 = 2
      \<and> field wav 34 2 = 16 \<and> field wav 40 4 = 3 \<and> drop 44 wav = [77, 97, 110]"
  using convertToWav_header [of "''audio/L16;rate=24000''" 24000 16 base64_decode "''TWFu''"]
  by (simp add: parseMimeType_L16_24000 base64_Man numeral_3_eq_3)

text \<open>A byte rate that is not a whole number is stored cut off: 12 bits at 11025 Hz make
  16537.5 bytes a second, and the field holds 16537.\<close>

lemma parseMimeType_L12_11025:
  "parseMimeType ''audio/L12;rate=11025''
     = \<lparr>numChannels = Num 1, sampleRate = Num 11025, bitsPerSample = Num 12\<rparr>"
  by (simp add: eval_codec)

lemma convertToWav_byte_rate_cut:
  "\<exists>wav. convertToWav base64_decode ''TWFu'' ''audio/L12;rate=11025'' = Inr wav
      \<and> field wav 28 4 = 16537"
proof -
  have fl: "\<lfloor>(33075 :: rat) / 2\<rfloor> = 16537" "\<lfloor>(3 :: rat) / 2\<rfloor> = 1"
    using floor_divide_of_int_eq [of 33075 2, where ?'a = rat]
      floor_divide_of_int_eq [of 3 2, where ?'a = rat] by simp_all
  have wav: "convertToWav base64_decode ''TWFu'' ''audio/L12;rate=11025''
               = Inr (wav_header 3 1 11025 16537 1 12 @ [77, 97, 110])"
    using convertToWav_result [of "''audio/L12;rate=11025''" 11025 12 base64_decode "''TWFu''"] fl
    by (simp add: parseMimeType_L12_11025 base64_Man numeral_3_eq_3)
  have f: "length (wav_header 3 1 11025 16537 1 12) = 44"
    "field (wav_header 3 1 11025 16537 1 12) 28 4 = 16537"
    using wav_header_fields [of 3 1 11025 16537 1 12] by simp_all
  have "field (wav_header 3 1 11025 16537 1 12 @ [77, 97, 110]) 28 4 = 16537"
    using f by (simp add: field_def)
  with wav show ?thesis by simp
qed

text \<open>
  C8. The claim: for every descriptor, malformed ones included, parsing falls back to the
  defaults (1 channel, 22050 Hz, 16 bits) and wrapping completes. A depth that is not a
  number is skipped by the \<open>isNaN\<close> test, but the rate has no such test: a rate that is not
  a number is stored as NaN in place of 22050, and a rate that does not fit its field
  makes the wrapping throw.
\<close>

theorem parseMimeType_no_fallback_for_rate:
  "parseMimeType ''audio/L16;rate=abc''
     = \<lparr>numChannels = Num 1, sampleRate = NaN, bitsPerSample = Num 16\<rparr>
   \<and> parseMimeType ''audio/Lxy;rate=24000''
     = \<lparr>numChannels = Num 1, sampleRate = Num 24000, bitsPerSample = Num 16\<rparr>
   \<and> convertToWav base64_decode ''TWFu'' ''audio/L16;rate=-1'' = Inl RangeError"
  using parseMimeType_bad_rate convertToWav_negative_rate by (simp add: eval_codec)

section \<open>Properties of the page text cache\<close>

lemma fold_max_ge: "x \<in> set xs \<Longrightarrow> x \<le> fold max xs (a::nat)"
proof (induction xs arbitrary: a)
  case Nil
  then show ?case by simp
next
  case (Cons y ys)
  have mono: "\<And>zs b. b \<le> fold max zs (b::nat)"
  proof -
    fix zs and b :: nat
    show "b \<le> fold max zs b"
      by (induction zs arbitrary: b) (auto intro: order_trans [OF max.cobounded2])
  qed
  show ?case
  proof (cases "x = y")
    case True
    then show ?thesis
      using mono [of "max y a" ys] by simp
  next
    case False
    with Cons show ?thesis by simp
  qed
qed

lemma fresh_page_id_fresh: "p \<in> set ps \<Longrightarrow> page_id p < fresh_page_id ps"
  using fold_max_ge [of "page_id p" "map page_id ps" 0] by (simp add: fresh_page_id_def)

lemma fresh_page_id_neq: "p \<in> set ps \<Longrightarrow> page_id p \<noteq> fresh_page_id ps"
  using fresh_page_id_fresh [of p ps] by simp

lemma find_by_key:
  "distinct (map page_id ps) \<Longrightarrow> pg \<in> set ps \<Longrightarrow> find (\<lambda>p. page_id p = page_id pg) ps = Some pg"
  by (induction ps) (auto simp: rev_image_eqI)

lemma find_append_fresh:
  "page_id pg \<noteq> i \<Longrightarrow> find (\<lambda>p. page_id p = i) (ps @ [pg]) = find (\<lambda>p. page_id p = i) ps"
  by (induction ps) auto

lemma find_fresh:
  "\<forall>p \<in> set ps. page_id p \<noteq> page_id pg \<Longrightarrow> find (\<lambda>p. page_id p = page_id pg) (ps @ [pg]) = Some pg"
  by (induction ps) auto

text \<open>What \<open>getOrCreatePage\<close> returns and leaves.\<close>

lemma getOrCreatePage_result:
  assumes ok: "store_ok w" and call: "getOrCreatePage w b n img = (res, w1)"
  shows "\<exists>pg. res = Inr pg \<and> book_id pg = b \<and> page_number pg = n
           \<and> joined_page w1 (page_id pg) = Some pg
           \<and> (\<forall>i. i \<noteq> page_id pg \<longrightarrow> joined_page w1 i = joined_page w i)
           \<and> (joined_page w (page_id pg) = Some pg \<or> joined_page w (page_id pg) = None)
           \<and> store_ok w1
           \<and> page_text w1 = page_text w \<and> page_audio w1 = page_audio w \<and> files w1 = files w
           \<and> requests w1 = requests w \<and> sleeps w1 = sleeps w"
proof (cases "filter (\<lambda>p. book_id p = b \<and> page_number p = n) (pages w)")
  case Nil
  define pg where "pg = \<lparr>page_id = fresh_page_id (pages w), book_id = b, page_number = n,
                  image_url = (if img \<noteq> [] then img else ''placeholder'')\<rparr>"
  have res: "res = Inr pg" and w1: "w1 = w\<lparr>pages := pages w @ [pg]\<rparr>"
    using call Nil
    by (simp_all add: getOrCreatePage_def getPageByBookAndNumber_def single_def data_or_null_def
        createPage_def Let_def pg_def)
  have fresh: "\<forall>p \<in> set (pages w). page_id p \<noteq> page_id pg"
    by (auto simp: pg_def dest: fresh_page_id_neq)
  have "joined_page w1 (page_id pg) = Some pg"
    using find_fresh [OF fresh] by (simp add: joined_page_def w1)
  moreover have "\<forall>i. i \<noteq> page_id pg \<longrightarrow> joined_page w1 i = joined_page w i"
    using find_append_fresh [of pg _ "pages w"] by (auto simp: joined_page_def w1)
  moreover have "store_ok w1"
    using ok fresh by (auto simp: store_ok_def w1)
  moreover have "joined_page w (page_id pg) = None"
    using fresh by (auto simp: joined_page_def find_None_iff)
  ultimately show ?thesis
    using res by (simp add: w1 pg_def)
next
  case (Cons pg rest)
  show ?thesis
  proof (cases rest)
    case Nil
    with Cons have one: "filter (\<lambda>p. book_id p = b \<and> page_number p = n) (pages w) = [pg]"
      by simp
    then have res: "res = Inr pg" and w1: "w1 = w"
      using call
      by (simp_all add: getOrCreatePage_def getPageByBookAndNumber_def single_def data_or_null_def)
    have "pg \<in> set (filter (\<lambda>p. book_id p = b \<and> page_number p = n) (pages w))"
      using one by simp
    then have mem: "pg \<in> set (pages w)" and key: "book_id pg = b" "page_number pg = n"
      by auto
    have "joined_page w (page_id pg) = Some pg"
      using find_by_key [OF _ mem] ok by (simp add: joined_page_def store_ok_def)
    then show ?thesis
      using res w1 key ok by simp
  next
    case (Cons pg2 rest2)
    define pn where "pn = \<lparr>page_id = fresh_page_id (pages w), book_id = b, page_number = n,
                  image_url = (if img \<noteq> [] then img else ''placeholder'')\<rparr>"
    have res: "res = Inr pn" and w1: "w1 = w\<lparr>pages := pages w @ [pn]\<rparr>"
      using call Cons \<open>filter _ (pages w) = pg # rest\<close>
      by (simp_all add: getOrCreatePage_def getPageByBookAndNumber_def single_def data_or_null_def
          createPage_def Let_def pn_def)
    have fresh: "\<forall>p \<in> set (pages w). page_id p \<noteq> page_id pn"
      by (auto simp: pn_def dest: fresh_page_id_neq)
    have "joined_page w1 (page_id pn) = Some pn"
      using find_fresh [OF fresh] by (simp add: joined_page_def w1)
    moreover have "\<forall>i. i \<noteq> page_id pn \<longrightarrow> joined_page w1 i = joined_page w i"
      using find_append_fresh [of pn _ "pages w"] by (auto simp: joined_page_def w1)
    moreover have "store_ok w1"
      using ok fresh by (auto simp: store_ok_def w1)
    moreover have "joined_page w (page_id pn) = None"
      using fresh by (auto simp: joined_page_def find_None_iff)
    ultimately show ?thesis
      using res by (simp add: w1 pn_def)
  qed
qed


lemma on_page_pages: "pages w' = pages w \<Longrightarrow> on_page w' b n i = on_page w b n i"
  by (simp add: on_page_def joined_page_def)

lemma processImageToText_frame:
  assumes "processImageToText env img mt w = (res, w')"
  shows "pages w' = pages w" "page_text w' = page_text w" "page_audio w' = page_audio w"
    "files w' = files w" "sleeps w' = sleeps w" "requests w' \<le> Suc (requests w)"
    "requests w \<le> requests w'"
  using assms by (auto simp: processImageToText_def split: if_splits sum.splits)



text \<open>A text that is cached stays cached, whatever page a later extraction is for.\<close>

lemma cached_text_stable:
  assumes ok: "store_ok w"
    and c: "cached_text w b n = [row]"
    and call: "getOrExtractPageText env b' n' img mt u w = (res, w1)"
  shows "store_ok w1 \<and> cached_text w1 b n = [row]"
proof (cases "getPageTextByBookAndNumber w b' n'")
  case (Inl e)
  then show ?thesis
    using call ok c by (simp add: getOrExtractPageText_def)
next
  case (Inr found)
  show ?thesis
  proof (cases found)
    case (Some existing)
    then show ?thesis
      using call ok c Inr by (auto simp: getOrExtractPageText_def split: sum.splits)
  next
    case None
    have other: "(b', n') \<noteq> (b, n)"
    proof
      assume "(b', n') = (b, n)"
      then have "getPageTextByBookAndNumber w b' n' = Inr (Some row)"
        using c
        by (simp add: getPageTextByBookAndNumber_def cached_text_def single_def data_or_null_def)
      with Inr None show False by simp
    qed
    obtain res0 w0 where g: "getOrCreatePage w b' n' ''placeholder'' = (res0, w0)"
      by fastforce
    from getOrCreatePage_result [OF ok g] obtain pg where
      pg: "res0 = Inr pg" "book_id pg = b'" "page_number pg = n'"
        "joined_page w0 (page_id pg) = Some pg"
        "\<forall>i. i \<noteq> page_id pg \<longrightarrow> joined_page w0 i = joined_page w i"
        "joined_page w (page_id pg) = Some pg \<or> joined_page w (page_id pg) = None"
        "store_ok w0" "page_text w0 = page_text w"
      by blast
    have not_on: "\<not> on_page w b n (page_id pg)" "\<not> on_page w0 b n (page_id pg)"
      using pg other by (auto simp: on_page_def)
    have same: "\<And>i. on_page w0 b n i = on_page w b n i"
    proof -
      fix i
      show "on_page w0 b n i = on_page w b n i"
      proof (cases "i = page_id pg")
        case True
        then show ?thesis using not_on by simp
      next
        case False
        then show ?thesis using pg(5) by (simp add: on_page_def)
      qed
    qed
    have c0: "cached_text w0 b n = [row]"
      using c pg(8) same by (simp add: cached_text_def)
    obtain pres w2 where p: "processImageToText env img mt w0 = (pres, w2)"
      by fastforce
    note fr = processImageToText_frame [OF p]
    have c2: "cached_text w2 b n = [row]" and ok2: "store_ok w2"
      using c0 fr pg(7) on_page_pages [OF fr(1)] by (simp_all add: cached_text_def store_ok_def)
    have row_id: "text_page_id row \<noteq> page_id pg"
    proof -
      have "row \<in> set (cached_text w b n)" using c by simp
      then have "on_page w b n (text_page_id row)" by (simp add: cached_text_def)
      with not_on show ?thesis by auto
    qed
    have saved: "\<And>v c' sres w3. savePageText w2 (page_id pg) v c' = (sres, w3) \<Longrightarrow>
                   store_ok w3 \<and> cached_text w3 b n = [row]"
    proof -
      fix v c' sres w3
      assume sv: "savePageText w2 (page_id pg) v c' = (sres, w3)"
      then have w3: "w3 = w2\<lparr>page_text := filter (\<lambda>t. text_page_id t \<noteq> page_id pg) (page_text w2)
                   @ [\<lparr>text_page_id = page_id pg, extracted_text = v, extraction_confidence = c'\<rparr>]\<rparr>"
        by (auto simp: savePageText_def Let_def)
      have on3: "\<And>i. on_page w3 b n i = on_page w2 b n i"
        using w3 by (simp add: on_page_def joined_page_def)
      have pt3: "page_text w3 = filter (\<lambda>t. text_page_id t \<noteq> page_id pg) (page_text w2)
                   @ [\<lparr>text_page_id = page_id pg, extracted_text = v, extraction_confidence = c'\<rparr>]"
        using w3 by simp
      have no: "\<not> on_page w2 b n (page_id pg)"
        using not_on(2) on_page_pages [OF fr(1)] by simp
      have "cached_text w3 b n = filter (\<lambda>t. on_page w2 b n (text_page_id t)) (page_text w3)"
        using on3 by (simp add: cached_text_def)
      also have "\<dots> = filter (\<lambda>t. on_page w2 b n (text_page_id t))
                         (filter (\<lambda>t. text_page_id t \<noteq> page_id pg) (page_text w2))"
        using no by (simp add: pt3)
      also have "\<dots> = filter (\<lambda>t. text_page_id t \<noteq> page_id pg) (cached_text w2 b n)"
        by (simp add: cached_text_def conj_commute)
      also have "\<dots> = [row]"
        using c2 row_id by simp
      finally have "cached_text w3 b n = [row]" .
      moreover have "store_ok w3"
        using ok2 w3 by (simp add: store_ok_def)
      ultimately show "store_ok w3 \<and> cached_text w3 b n = [row]" by simp
    qed
    show ?thesis
      using call Inr None g pg(1) p c0 pg(7) c2 ok2 saved
      by (auto simp: getOrExtractPageText_def split: sum.splits prod.splits)
  qed
qed


section \<open>Properties of the retry with backoff\<close>

lemma tts_operation_frame:
  "tts_operation env t w = (res, w') \<Longrightarrow>
     res = tts_attempt env t (requests w) \<and> w' = w\<lparr>requests := Suc (requests w)\<rparr>"
  by (auto simp: tts_operation_def)









section \<open>Properties of the page audio cache\<close>

lemma store_page_audio_result:
  "\<exists>rows row w4 url.
     store_page_audio env b n voice u pg wav w
       = (Inr \<lparr>cached = False, result_page = Row pg, audioUrl = url,
                duration = estimatedDuration wav\<rparr>, w4)
     \<and> page_audio w4 = rows @ [row]
     \<and> audio_duration_seconds row = estimatedDuration wav
     \<and> audio_size_bytes row = length wav"
  by (simp add: store_page_audio_def saveAudioFile_def savePageAudio_def Let_def)

lemma generate_page_audio_result:
  assumes "generate_page_audio env b n content voice u w = (Inr r, w1)"
  shows "\<exists>d m wav rows row.
           convertToWav (decode_base64 env) d m = Inr wav
         \<and> \<not> cached r \<and> duration r = estimatedDuration wav
         \<and> page_audio w1 = rows @ [row]
         \<and> audio_duration_seconds row = estimatedDuration wav
         \<and> audio_size_bytes row = length wav"
proof -
  from assms obtain pg d m wav w2 where
    conv: "convertToWav (decode_base64 env) d m = Inr wav"
    and st: "store_page_audio env b n voice u pg wav w2 = (Inr r, w1)"
    by (auto simp: generate_page_audio_def split: sum.splits option.splits prod.splits)
  from store_page_audio_result [of env b n voice u pg wav w2] st conv
  show ?thesis by force
qed

text \<open>
  C6, amended. On an audio cache miss the duration returned by \<open>getOrGeneratePageAudio\<close> is
  the one persisted in the new row of \<open>page_audio\<close>, and it is the byte length of the wrapped
  buffer (the 44 bytes of the header included, persisted as \<open>audio_size_bytes\<close>) over
  \<open>44100 * 2 * 2\<close>, rounded to the nearest integer: the fixed profile of 44.1 kHz, 16 bits,
  stereo, whatever the descriptor of the codec reports.
\<close>

theorem page_audio_duration_on_miss:
  assumes "getOrGeneratePageAudio env b n content voice u w = (Inr r, w1)" and "\<not> cached r"
  shows "page_audio w1 \<noteq> []
    \<and> audio_duration_seconds (last (page_audio w1)) = duration r
    \<and> duration r = math_round (of_nat (audio_size_bytes (last (page_audio w1))) / (44100 * 2 * 2))
    \<and> (\<exists>d m wav. convertToWav (decode_base64 env) d m = Inr wav
          \<and> audio_size_bytes (last (page_audio w1)) = length wav)"
proof -
  from assms obtain voice' where "generate_page_audio env b n content voice' u w = (Inr r, w1)"
    by (auto simp: getOrGeneratePageAudio_def Let_def split: sum.splits option.splits if_splits)
  from generate_page_audio_result [OF this] obtain d m wav rows row where
    "convertToWav (decode_base64 env) d m = Inr wav"
    "duration r = estimatedDuration wav" "page_audio w1 = rows @ [row]"
    "audio_duration_seconds row = estimatedDuration wav" "audio_size_bytes row = length wav"
    by blast
  then show ?thesis
    by (auto simp: estimatedDuration_def intro: exI)
qed

lemma map_filter_replicate:
  "f x = Some y \<Longrightarrow> List.map_filter f (replicate n x) = replicate n y"
  by (induction n) (simp_all add: List.map_filter_simps)

lemma b64_groups_zeros: "b64_groups (replicate (4 * k) 0) = replicate (3 * k) 0"
proof (induction k)
  case 0
  then show ?case by simp
next
  case (Suc k)
  have "replicate (4 * Suc k) (0::nat) = 0 # 0 # 0 # 0 # replicate (4 * k) 0"
    by (simp add: eval_nat_numeral)
  moreover have "replicate (3 * Suc k) (0::byte) = 0 # 0 # 0 # replicate (3 * k) 0"
    by (simp add: eval_nat_numeral)
  ultimately show ?case
    using Suc by simp
qed

lemma base64_decode_As:
  "base64_decode (replicate (4 * k) (CHR ''A'')) = replicate (3 * k) 0"
proof -
  have "takeWhile (\<lambda>c. c \<noteq> CHR ''='') (replicate (4 * k) (CHR ''A'')) = replicate (4 * k) (CHR ''A'')"
    by (simp add: takeWhile_eq_all_conv)
  moreover have "b64_value (CHR ''A'') = Some 0"
    by (simp add: b64_value_def char_code_def)
  ultimately show ?thesis
    by (simp add: base64_decode_def map_filter_replicate b64_groups_zeros)
qed

lemma base64_decode_long: "base64_decode (replicate 640000 (CHR ''A'')) = replicate 480000 0"
  using base64_decode_As [of 160000] by simp

lemma convertToWav_long:
  "convertToWav base64_decode (replicate 640000 (CHR ''A'')) ''audio/L16;rate=24000''
     = Inr (wav_header 480000 1 24000 48000 2 16 @ replicate 480000 0)"
  using convertToWav_result [of "''audio/L16;rate=24000''" 24000 16 base64_decode
          "replicate 640000 (CHR ''A'')"]
  by (simp add: parseMimeType_L16_24000 base64_decode_long)

lemma math_round_long: "math_round (120011 / 44100) = 3"
  by (simp add: math_round_def floor_eq_iff)

lemma generateAudio_long:
  "generateAudio long_audio_env ''hello'' w
     = (Inr (Some \<lparr>payload_data = replicate 640000 (CHR ''A''),
                    payload_mimeType = ''audio/L16;rate=24000''\<rparr>),
        w\<lparr>requests := Suc (requests w)\<rparr>)"
  by (simp add: generateAudio_def retryWithBackoff_def retry_from.simps tts_operation_def
      tts_attempt_def long_audio_env_def demo_env_def Let_def)

lemma long_audio_env_fields:
  "decode_base64 long_audio_env = base64_decode"
  "public_url long_audio_env = (\<lambda>p. ''https://storage/'' @ p)"
  by (simp_all add: long_audio_env_def demo_env_def)

text \<open>
  C6 as stated, that the duration uses the values the codec reports where they differ
  from the default profile, fails: for ten seconds of 16-bit mono audio at 24 kHz (480,000
  bytes, 480,044 with the header) the function returns 3, which is 480,044 over
  \<open>44100 * 2 * 2\<close> rounded, where the byte length over the reported
  \<open>24000 * 1 * 2\<close> is ten seconds.
\<close>

theorem page_audio_duration_ignores_codec:
  "map_sum id duration
     (fst (getOrGeneratePageAudio long_audio_env ''b1'' 1 ''hello'' None ''u1'' empty_world)) = Inr 3
   \<and> described_duration 480044 (parseMimeType ''audio/L16;rate=24000'') = Some (120011 / 12000)
   \<and> (3 :: rat) < 120011 / 12000"
  by (simp add: getOrGeneratePageAudio_def getPageAudioByBookAndNumber_def single_def
      data_or_null_def generate_page_audio_def getOrCreatePage_def getPageByBookAndNumber_def
      createPage_def generateAudio_long convertToWav_long store_page_audio_def
      saveAudioFile_def savePageAudio_def estimatedDuration_def length_wav_header
      math_round_long described_duration_def parseMimeType_L16_24000 empty_world_def
      long_audio_env_fields Let_def)


theorem page_audio_duration_on_miss_witness:
  "\<exists>r w1. getOrGeneratePageAudio long_audio_env ''b1'' 1 ''hello'' None ''u1'' empty_world = (Inr r, w1)
      \<and> \<not> cached r \<and> duration r = 3
      \<and> audio_duration_seconds (last (page_audio w1)) = 3
      \<and> audio_size_bytes (last (page_audio w1)) = 480044"
proof -
  have "\<exists>r w1. getOrGeneratePageAudio long_audio_env ''b1'' 1 ''hello'' None ''u1'' empty_world = (Inr r, w1)
      \<and> \<not> cached r \<and> duration r = 3 \<and> audio_size_bytes (last (page_audio w1)) = 480044"
    by (simp add: getOrGeneratePageAudio_def getPageAudioByBookAndNumber_def single_def
      data_or_null_def generate_page_audio_def getOrCreatePage_def getPageByBookAndNumber_def
      createPage_def generateAudio_long convertToWav_long store_page_audio_def
      saveAudioFile_def savePageAudio_def estimatedDuration_def length_wav_header
      math_round_long empty_world_def long_audio_env_fields Let_def)
  then obtain r w1 where
    call: "getOrGeneratePageAudio long_audio_env ''b1'' 1 ''hello'' None ''u1'' empty_world = (Inr r, w1)"
    and r: "\<not> cached r" "duration r = 3" "audio_size_bytes (last (page_audio w1)) = 480044"
    by blast
  from page_audio_duration_on_miss [OF call r(1)] call r
  show ?thesis by auto
qed

section \<open>Properties of \<open>sendMessage\<close>\<close>

text \<open>For a request that carries a conversation identifier and a message of at most
  10,000 characters, and a conversation that exists: a requester who is not the owner is
  refused with 403 whatever the state of the document reference, and the owner is
  answered with the expired condition (410, \<open>CACHE_EXPIRED\<close>) when the expiry is set and
  has passed or when no reference is bound. In both cases the state is left as it is: no
  request reaches the Generation Backend and no message is stored.\<close>

lemma sendMessage_access_before_state:
  assumes "conversationId request = Some cid" and "user_message request = Some msg"
    and "cid \<noteq> []" and "msg \<noteq> []" and "length msg \<le> 10000"
    and "filter (\<lambda>c. conversation_id c = cid) (ai_conversations cw) = [conv]"
  shows "user_id conv \<noteq> userId \<Longrightarrow>
           sendMessage cenv now userId request cw
             = (JsonError 403 ''Access denied to this conversation'' None, cw)"
    and "user_id conv = userId \<Longrightarrow> cache_expires_at conv = Some t \<Longrightarrow> t < now \<Longrightarrow>
           sendMessage cenv now userId request cw
             = (JsonError 410 ''File has expired. Please upload the book again.''
                  (Some ''CACHE_EXPIRED''), cw)"
    and "user_id conv = userId \<Longrightarrow> (\<forall>t. cache_expires_at conv = Some t \<longrightarrow> now \<le> t) \<Longrightarrow>
           gemini_file_uri conv = None \<or> gemini_file_uri conv = Some [] \<Longrightarrow>
           sendMessage cenv now userId request cw
             = (JsonError 410 ''Conversation is not prepared for chat''
                  (Some ''CACHE_EXPIRED''), cw)"
  using assms
  by (auto simp: sendMessage_def sendMessage_try_def getConversationById_def single_def
      data_or_throw_def split: option.splits)

text \<open>The answer is the expired condition only for the owner of an existing conversation,
  and then nothing has been generated or stored.\<close>

lemma sendMessage_expired_only_after_access:
  assumes "sendMessage cenv now userId request cw = (JsonError 410 m code, cw')"
  shows "cw' = cw
    \<and> (\<exists>cid conv. conversationId request = Some cid
          \<and> filter (\<lambda>c. conversation_id c = cid) (ai_conversations cw) = [conv]
          \<and> user_id conv = userId)"
proof -
  from assms have "\<exists>cid msg. conversationId request = Some cid \<and> user_message request = Some msg
      \<and> cid \<noteq> [] \<and> msg \<noteq> [] \<and> length msg \<le> 10000"
    by (auto simp: sendMessage_def sendMessage_try_def split: option.splits if_splits)
  then obtain cid msg where req: "conversationId request = Some cid" "user_message request = Some msg"
    "cid \<noteq> []" "msg \<noteq> []" "length msg \<le> 10000"
    by blast
  show ?thesis
  proof (cases "getConversationById cw cid")
    case (Inl e)
    then show ?thesis
      using assms req by (simp add: sendMessage_def sendMessage_try_def)
  next
    case (Inr found)
    show ?thesis
    proof (cases found)
      case None
      then show ?thesis
        using assms req Inr by (simp add: sendMessage_def sendMessage_try_def)
    next
      case (Some conv)
      then have one: "filter (\<lambda>c. conversation_id c = cid) (ai_conversations cw) = [conv]"
        using Inr
        by (auto simp: getConversationById_def single_def data_or_throw_def
            split: list.splits)
      have "user_id conv = userId \<and> cw' = cw"
        using assms req Inr Some
        by (auto simp: sendMessage_def sendMessage_try_def createMessage_def Let_def
            generateWithFile_def getConversationMessages_def
            split: if_splits option.splits sum.splits prod.splits thrown.splits)
      then show ?thesis
        using req one by simp
    qed
  qed
qed

text \<open>
  C2. The claim: a missing conversation fails not-found, before the checks of access and
  state. \<open>getConversationById\<close> reads the row with \<open>.single()\<close> and throws every error of
  the client, so for an identifier that no conversation has it throws the error of no row
  (PGRST116), the test \<open>if (!conversation)\<close> with its 404 is never reached, and the
  handler passes the error to \<open>next\<close>.
\<close>

theorem sendMessage_missing_conversation:
  assumes "conversationId request = Some cid" and "user_message request = Some msg"
    and "cid \<noteq> []" and "msg \<noteq> []" and "length msg \<le> 10000"
    and "filter (\<lambda>c. conversation_id c = cid) (ai_conversations cw) = []"
  shows "sendMessage cenv now userId request cw = (Next (PostgrestError ''PGRST116''), cw)"
  using assms
  by (simp add: sendMessage_def sendMessage_try_def getConversationById_def single_def
      data_or_throw_def)

theorem sendMessage_missing_conversation_witness:
  "sendMessage demo_chat_env 1000 ''u1'' \<lparr>conversationId = Some ''c9'', user_message = Some ''hello''\<rparr>
     demo_chat = (Next (PostgrestError ''PGRST116''), demo_chat)"
  using sendMessage_missing_conversation
          [of "\<lparr>conversationId = Some ''c9'', user_message = Some ''hello''\<rparr>" "''c9''" "''hello''"
              demo_chat demo_chat_env 1000 "''u1''"]
  by (simp add: demo_chat_def)

text \<open>The conversation of the example was never prepared: its owner is answered with the
  expired condition, another requester with 403.\<close>

lemma sendMessage_demo:
  "sendMessage demo_chat_env 1000 ''u1'' \<lparr>conversationId = Some ''c1'', user_message = Some ''hello''\<rparr>
     demo_chat = (JsonError 410 ''Conversation is not prepared for chat'' (Some ''CACHE_EXPIRED''), demo_chat)"
  "sendMessage demo_chat_env 1000 ''u2'' \<lparr>conversationId = Some ''c1'', user_message = Some ''hello''\<rparr>
     demo_chat = (JsonError 403 ''Access denied to this conversation'' None, demo_chat)"
  by (simp_all add: sendMessage_def sendMessage_try_def getConversationById_def single_def
      data_or_throw_def demo_chat_def)

end
